theory Spec2Isabelle
  imports Main
begin

section \<open>Python primitives used by slides_tools.py\<close>

text \<open>
  Strings are \<^typ>\<open>string\<close>. The dictionaries that the tools receive (update specs from
  the caller, resources from the Slides API) are modelled as records whose fields are all
  optional and typed as the docstrings and the API schema type them: \<open>d.get(k)\<close> is the
  field, \<open>None\<close> when the key is absent, and \<open>d.get(k, dflt)\<close> replaces \<open>None\<close> by the
  default.
\<close>

definition nl :: string where
  "nl = [CHR 0x0A]"

definition digit :: "nat \<Rightarrow> char" where
  "digit n = ''0123456789'' ! (n mod 10)"

fun str_nat :: "nat \<Rightarrow> string" where
  "str_nat n = (if n < 10 then [digit n] else str_nat (n div 10) @ [digit (n mod 10)])"

declare str_nat.simps [simp del]

definition str_int :: "int \<Rightarrow> string" where
  "str_int i = (if i < 0 then ''-'' @ str_nat (nat (- i)) else str_nat (nat i))"

text \<open>\<open>d.get(k, dflt)\<close> on an optional field.\<close>

definition get_or :: "'a option \<Rightarrow> 'a \<Rightarrow> 'a" where
  "get_or v dflt = (case v of None \<Rightarrow> dflt | Some x \<Rightarrow> x)"

text \<open>How an f-string prints an optional string or integer: \<open>None\<close> prints as \<open>None\<close>.\<close>

definition fmt_str :: "string option \<Rightarrow> string" where
  "fmt_str v = (case v of None \<Rightarrow> ''None'' | Some s \<Rightarrow> s)"

definition fmt_int :: "int option \<Rightarrow> string" where
  "fmt_int v = (case v of None \<Rightarrow> ''None'' | Some i \<Rightarrow> str_int i)"

text \<open>\<open>sep.join(xs)\<close>.\<close>

fun join :: "string \<Rightarrow> string list \<Rightarrow> string" where
  "join sep [] = []"
| "join sep [x] = x"
| "join sep (x # y # ys) = x @ sep @ join sep (y # ys)"

text \<open>
  \<open>str.strip()\<close>: a character is a code point below 256, and the whitespace
  characters are those of \<open>str.isspace\<close> in that range (tab, line feed, vertical tab,
  form feed, carriage return, the four separators 0x1C to 0x1F, space, next line 0x85
  and no-break space 0xA0).
\<close>

definition is_space :: "char \<Rightarrow> bool" where
  "is_space c = (c \<in> set [CHR 0x09, CHR 0x0A, CHR 0x0B, CHR 0x0C, CHR 0x0D,
                            CHR 0x1C, CHR 0x1D, CHR 0x1E, CHR 0x1F, CHR 0x20,
                            CHR 0x85, CHR 0xA0])"

definition strip :: "string \<Rightarrow> string" where
  "strip s = rev (dropWhile is_space (rev (dropWhile is_space s)))"

section \<open>The remote service, the log and the call trace\<close>

text \<open>
  Every tool talks to the Slides API through \<open>service\<close> and writes to \<open>logger\<close>. Both
  effects are explicit: the world holds the list of remote calls issued so far and the
  log records written so far. The remote service is a parameter; each endpoint answers
  from the calls that came before, and may raise.
\<close>

record cell_location =
  rowIndex :: "int option"
  columnIndex :: "int option"

text \<open>
  The request dictionaries. \<open>DeleteText\<close> carries objectId, the optional cellLocation and
  the type of its textRange; \<open>InsertText\<close> carries objectId, the optional cellLocation,
  insertionIndex and text; \<open>UpdateImageProperties\<close> carries objectId, fields and the
  description of its imageProperties; \<open>DuplicateObject\<close> carries objectId and insertionIndex.
\<close>

datatype request =
  DeleteText "string option" "cell_location option" string
| InsertText "string option" "cell_location option" nat string
| UpdateImageProperties "string option" string string
| DuplicateObject string nat

datatype error = RemoteError string | IndexError

datatype call =
  PresentationsGet string
| PagesGet string string
| BatchUpdate string "request list"

datatype log_entry = Info string | Warning string

record world =
  calls :: "call list"
  log :: "log_entry list"

definition logger_info :: "string \<Rightarrow> world \<Rightarrow> world" where
  "logger_info msg w = w\<lparr>log := log w @ [Info msg]\<rparr>"

definition logger_warning :: "string \<Rightarrow> world \<Rightarrow> world" where
  "logger_warning msg w = w\<lparr>log := log w @ [Warning msg]\<rparr>"

fun is_warning :: "log_entry \<Rightarrow> bool" where
  "is_warning (Warning m) = True"
| "is_warning (Info m) = False"

fun is_batchUpdate :: "call \<Rightarrow> bool" where
  "is_batchUpdate (BatchUpdate p rs) = True"
| "is_batchUpdate c = False"

subsection \<open>Resources returned by the API\<close>

record duplicate_reply =
  dup_objectId :: "string option"

record reply =
  rep_duplicateObject :: "duplicate_reply option"

record batch_result =
  res_replies :: "reply list option"

record slide =
  slide_objectId :: "string option"

record presentation =
  pres_slides :: "slide list option"

record text_run =
  run_content :: "string option"

record text_element =
  te_textRun :: "text_run option"

record text_body =
  txt_textElements :: "text_element list option"

record shape =
  shape_shapeType :: "string option"
  shape_text :: "text_body option"

record table_cell =
  tc_text :: "text_body option"

record table_row =
  row_tableCells :: "table_cell list option"

record table =
  table_rows :: "int option"
  table_columns :: "int option"
  table_tableRows :: "table_row list option"

record image =
  image_description :: "string option"

record video =
  vid_url :: "string option"

record line =
  line_lineType :: "string option"

record page_element =
  el_objectId :: "string option"
  el_shape :: "shape option"
  el_table :: "table option"
  el_image :: "image option"
  el_video :: "video option"
  el_line :: "line option"

record page =
  page_pageType :: "string option"
  page_pageElements :: "page_element list option"

record remote =
  presentations_get :: "call list \<Rightarrow> string \<Rightarrow> error + presentation"
  pages_get :: "call list \<Rightarrow> string \<Rightarrow> string \<Rightarrow> error + page"
  batchUpdate :: "call list \<Rightarrow> string \<Rightarrow> request list \<Rightarrow> error + batch_result"

text \<open>Issuing a call appends it to the trace, whether the service answers or raises.\<close>

definition call_presentations_get ::
  "remote \<Rightarrow> string \<Rightarrow> world \<Rightarrow> (error + presentation) \<times> world" where
  "call_presentations_get service pid w =
     (presentations_get service (calls w) pid, w\<lparr>calls := calls w @ [PresentationsGet pid]\<rparr>)"

definition call_pages_get ::
  "remote \<Rightarrow> string \<Rightarrow> string \<Rightarrow> world \<Rightarrow> (error + page) \<times> world" where
  "call_pages_get service pid page_id w =
     (pages_get service (calls w) pid page_id, w\<lparr>calls := calls w @ [PagesGet pid page_id]\<rparr>)"

definition call_batchUpdate ::
  "remote \<Rightarrow> string \<Rightarrow> request list \<Rightarrow> world \<Rightarrow> (error + batch_result) \<times> world" where
  "call_batchUpdate service pid requests w =
     (batchUpdate service (calls w) pid requests, w\<lparr>calls := calls w @ [BatchUpdate pid requests]\<rparr>)"

section \<open>update_slide_content\<close>

record update_spec =
  upd_element_id :: "string option"
  upd_update_type :: "string option"
  upd_text :: "string option"
  upd_row :: "int option"
  upd_column :: "int option"
  upd_description :: "string option"

text \<open>
  The first loop of \<open>update_slide_content\<close>: it appends to \<open>requests\<close> and, for an
  unknown update type, writes a warning.
\<close>

fun build_requests :: "update_spec list \<Rightarrow> request list \<Rightarrow> world \<Rightarrow> request list \<times> world" where
  "build_requests [] requests w = (requests, w)"
| "build_requests (upd # rest) requests w =
     (let element_id = upd_element_id upd;
          update_type = upd_update_type upd
      in if update_type = Some ''shape_text'' then
           (let text = get_or (upd_text upd) ''''
            in build_requests rest
                 (requests @ [DeleteText element_id None ''ALL'',
                              InsertText element_id None 0 text]) w)
         else if update_type = Some ''table_cell'' then
           (let row = upd_row upd;
                col = upd_column upd;
                text = get_or (upd_text upd) '''';
                loc = \<lparr>rowIndex = row, columnIndex = col\<rparr>
            in build_requests rest
                 (requests @ [DeleteText element_id (Some loc) ''ALL'',
                              InsertText element_id (Some loc) 0 text]) w)
         else if update_type = Some ''image_description'' then
           (let description = get_or (upd_description upd) ''''
            in build_requests rest
                 (requests @ [UpdateImageProperties element_id ''description'' description]) w)
         else
           build_requests rest requests
             (logger_warning (''Unknown update_type '' @ [CHR 0x27] @ fmt_str update_type
                 @ [CHR 0x27] @ '' for element '' @ fmt_str element_id) w))"

text \<open>The second loop: one summary line per spec, and the running request index.\<close>

fun build_summary :: "update_spec list \<Rightarrow> string list \<Rightarrow> nat \<Rightarrow> string list \<times> nat" where
  "build_summary [] summary update_idx = (summary, update_idx)"
| "build_summary (upd # rest) summary update_idx =
     (let update_type = upd_update_type upd;
          element_id = upd_element_id upd
      in if update_type = Some ''shape_text'' then
           build_summary rest
             (summary @ [''Shape (ID: '' @ fmt_str element_id @ ''): Text updated''])
             (update_idx + 2)
         else if update_type = Some ''table_cell'' then
           (let row = upd_row upd;
                col = upd_column upd
            in build_summary rest
                 (summary @ [''Table (ID: '' @ fmt_str element_id @ ''), Cell ('' @ fmt_int row
                               @ '', '' @ fmt_int col @ ''): Text updated''])
                 (update_idx + 2))
         else if update_type = Some ''image_description'' then
           build_summary rest
             (summary @ [''Image (ID: '' @ fmt_str element_id @ ''): Description updated''])
             (update_idx + 1)
         else
           build_summary rest
             (summary @ [''Element (ID: '' @ fmt_str element_id @ ''): Skipped (unknown type)''])
             update_idx)"

definition update_message ::
  "string \<Rightarrow> string \<Rightarrow> string \<Rightarrow> nat \<Rightarrow> nat \<Rightarrow> nat \<Rightarrow> string list \<Rightarrow> string" where
  "update_message user_google_email presentation_id page_object_id n_updates n_requests n_replies summary =
     ''Slide Content Update Results for '' @ user_google_email @ '':'' @ nl
     @ ''- Presentation ID: '' @ presentation_id @ nl
     @ ''- Page ID: '' @ page_object_id @ nl
     @ ''- Updates Requested: '' @ str_nat n_updates @ nl
     @ ''- Requests Sent: '' @ str_nat n_requests @ nl
     @ ''- Replies Received: '' @ str_nat n_replies @ nl
     @ nl
     @ ''Update Summary:'' @ nl
     @ join nl summary @ nl"

definition update_slide_content ::
  "remote \<Rightarrow> string \<Rightarrow> string \<Rightarrow> string \<Rightarrow> update_spec list \<Rightarrow> world
     \<Rightarrow> (error + string) \<times> world" where
  "update_slide_content service user_google_email presentation_id page_object_id updates w =
     (let w1 = logger_info (''[update_slide_content] Invoked. Email: '' @ [CHR 0x27]
                 @ user_google_email @ [CHR 0x27] @ '', Presentation: '' @ [CHR 0x27]
                 @ presentation_id @ [CHR 0x27] @ '', Page: '' @ [CHR 0x27] @ page_object_id
                 @ [CHR 0x27] @ '', Updates: '' @ str_nat (length updates)) w;
          (requests, w2) = build_requests updates [] w1
      in if requests = [] then (Inr ''No valid updates were provided.'', w2)
         else
           (case call_batchUpdate service presentation_id requests w2 of
              (Inl e, w3) \<Rightarrow> (Inl e, w3)
            | (Inr result, w3) \<Rightarrow>
                (let replies = get_or (res_replies result) [];
                     (summary, update_idx) = build_summary updates [] 0;
                     confirmation_message =
                       update_message user_google_email presentation_id page_object_id
                         (length updates) (length requests) (length replies) summary;
                     w4 = logger_info (''Slide content updated for '' @ user_google_email
                            @ '' - '' @ str_nat (length updates) @ '' updates.'') w3
                 in (Inr confirmation_message, w4))))"

section \<open>get_page\<close>

text \<open>The loop of \<open>get_page\<close> over the page elements, appending to \<open>elements_info\<close>.\<close>

fun page_elements_info :: "page_element list \<Rightarrow> string list \<Rightarrow> string list" where
  "page_elements_info [] elements_info = elements_info"
| "page_elements_info (element # rest) elements_info =
     (let element_id = get_or (el_objectId element) ''Unknown''
      in case el_shape element of
           Some shape \<Rightarrow>
             (let shape_type = get_or (shape_shapeType shape) ''Unknown''
              in page_elements_info rest
                   (elements_info @ [''  Shape: ID '' @ element_id @ '', Type: '' @ shape_type]))
         | None \<Rightarrow>
        (case el_table element of
           Some table \<Rightarrow>
             (let rows = get_or (table_rows table) 0;
                  cols = get_or (table_columns table) 0
              in page_elements_info rest
                   (elements_info @ [''  Table: ID '' @ element_id @ '', Size: '' @ str_int rows
                                       @ ''x'' @ str_int cols]))
         | None \<Rightarrow>
        (case el_line element of
           Some line \<Rightarrow>
             (let line_type = get_or (line_lineType line) ''Unknown''
              in page_elements_info rest
                   (elements_info @ [''  Line: ID '' @ element_id @ '', Type: '' @ line_type]))
         | None \<Rightarrow>
             page_elements_info rest
               (elements_info @ [''  Element: ID '' @ element_id @ '', Type: Unknown'']))))"

definition get_page ::
  "remote \<Rightarrow> string \<Rightarrow> string \<Rightarrow> string \<Rightarrow> world \<Rightarrow> (error + string) \<times> world" where
  "get_page service user_google_email presentation_id page_object_id w =
     (let w1 = logger_info (''[get_page] Invoked. Email: '' @ [CHR 0x27] @ user_google_email
                 @ [CHR 0x27] @ '', Presentation: '' @ [CHR 0x27] @ presentation_id
                 @ [CHR 0x27] @ '', Page: '' @ [CHR 0x27] @ page_object_id @ [CHR 0x27]) w
      in case call_pages_get service presentation_id page_object_id w1 of
           (Inl e, w2) \<Rightarrow> (Inl e, w2)
         | (Inr result, w2) \<Rightarrow>
             (let page_type = get_or (page_pageType result) ''Unknown'';
                  page_elements = get_or (page_pageElements result) [];
                  elements_info = page_elements_info page_elements [];
                  confirmation_message =
                    ''Page Details for '' @ user_google_email @ '':'' @ nl
                    @ ''- Presentation ID: '' @ presentation_id @ nl
                    @ ''- Page ID: '' @ page_object_id @ nl
                    @ ''- Page Type: '' @ page_type @ nl
                    @ ''- Total Elements: '' @ str_nat (length page_elements) @ nl
                    @ nl
                    @ ''Page Elements:'' @ nl
                    @ (if elements_info \<noteq> [] then join nl elements_info
                       else ''  No elements found'');
                  w3 = logger_info (''Page retrieved successfully for '' @ user_google_email) w2
              in (Inr confirmation_message, w3)))"

section \<open>get_slide_content\<close>

text \<open>The loop \<open>for te in text_elements\<close>, which appends the content of each text run.\<close>

fun concat_runs :: "text_element list \<Rightarrow> string \<Rightarrow> string" where
  "concat_runs [] text_content = text_content"
| "concat_runs (te # rest) text_content =
     (case te_textRun te of
        Some run \<Rightarrow> concat_runs rest (text_content @ get_or (run_content run) '''')
      | None \<Rightarrow> concat_runs rest text_content)"

text \<open>The loop over the cells of one table row.\<close>

fun cell_loop :: "table_cell list \<Rightarrow> string list \<Rightarrow> string list" where
  "cell_loop [] cell_row = cell_row"
| "cell_loop (cell # rest) cell_row =
     (let text_elements =
            (case tc_text cell of
               None \<Rightarrow> []
             | Some body \<Rightarrow> get_or (txt_textElements body) []);
          cell_text = concat_runs text_elements ''''
      in cell_loop rest (cell_row @ [strip cell_text]))"

text \<open>
  The loop over the rows of a table. The f-string prints the list \<open>cell_row\<close> with
  Python's built-in \<open>repr\<close>, which is a parameter of the model.
\<close>

fun row_loop :: "(string list \<Rightarrow> string) \<Rightarrow> table_row list \<Rightarrow> nat \<Rightarrow> string list \<Rightarrow> string list" where
  "row_loop repr [] row_idx table_content = table_content"
| "row_loop repr (row # rest) row_idx table_content =
     (let cell_row = cell_loop (get_or (row_tableCells row) []) []
      in row_loop repr rest (row_idx + 1)
           (table_content @ [''    Row '' @ str_nat (row_idx + 1) @ '': '' @ repr cell_row]))"

text \<open>The loop over the page elements, appending to \<open>content_blocks\<close>.\<close>

fun content_loop :: "(string list \<Rightarrow> string) \<Rightarrow> page_element list \<Rightarrow> string list \<Rightarrow> string list" where
  "content_loop repr [] content_blocks = content_blocks"
| "content_loop repr (element # rest) content_blocks =
     (let element_id = get_or (el_objectId element) ''Unknown''
      in case el_shape element of
           Some shape \<Rightarrow>
             (let shape_type = get_or (shape_shapeType shape) ''Unknown'';
                  text_content =
                    (case shape_text shape of
                       Some body \<Rightarrow> concat_runs (get_or (txt_textElements body) []) ''''
                     | None \<Rightarrow> '''')
              in content_loop repr rest
                   (content_blocks @ [''[Shape] ID: '' @ element_id @ '', Type: '' @ shape_type @ nl
                      @ ''  Text: '' @ (if text_content \<noteq> [] then strip text_content
                                        else ''(empty)'')]))
         | None \<Rightarrow>
        (case el_table element of
           Some table \<Rightarrow>
             (let rows = get_or (table_rows table) 0;
                  cols = get_or (table_columns table) 0;
                  cells = get_or (table_tableRows table) [];
                  table_content = row_loop repr cells 0 []
              in content_loop repr rest
                   (content_blocks @ [''[Table] ID: '' @ element_id @ '', Size: '' @ str_int rows
                      @ ''x'' @ str_int cols @ nl
                      @ (if table_content \<noteq> [] then join nl table_content
                         else ''    (empty table)'')]))
         | None \<Rightarrow>
        (case el_image element of
           Some img \<Rightarrow>
             (let description = get_or (image_description img) ''''
              in content_loop repr rest
                   (content_blocks @ [''[Image] ID: '' @ element_id @ nl @ ''  Description: ''
                      @ (if description \<noteq> [] then description else ''(no description)'')]))
         | None \<Rightarrow>
        (case el_video element of
           Some video \<Rightarrow>
             (let video_url = get_or (vid_url video) ''(unknown)''
              in content_loop repr rest
                   (content_blocks @ [''[Video] ID: '' @ element_id @ nl @ ''  URL: '' @ video_url]))
         | None \<Rightarrow>
        (case el_line element of
           Some line \<Rightarrow>
             (let line_type = get_or (line_lineType line) ''Unknown''
              in content_loop repr rest
                   (content_blocks @ [''[Line] ID: '' @ element_id @ '', Type: '' @ line_type]))
         | None \<Rightarrow>
             content_loop repr rest
               (content_blocks @ [''[Element] ID: '' @ element_id @ '', Type: Unknown'']))))))"

definition get_slide_content ::
  "(string list \<Rightarrow> string) \<Rightarrow> remote \<Rightarrow> string \<Rightarrow> string \<Rightarrow> string \<Rightarrow> world
     \<Rightarrow> (error + string) \<times> world" where
  "get_slide_content repr service user_google_email presentation_id page_object_id w =
     (let w1 = logger_info (''[get_slide_content] Invoked. Email: '' @ [CHR 0x27]
                 @ user_google_email @ [CHR 0x27] @ '', Presentation: '' @ [CHR 0x27]
                 @ presentation_id @ [CHR 0x27] @ '', Page: '' @ [CHR 0x27] @ page_object_id
                 @ [CHR 0x27]) w
      in case call_pages_get service presentation_id page_object_id w1 of
           (Inl e, w2) \<Rightarrow> (Inl e, w2)
         | (Inr result, w2) \<Rightarrow>
             (let page_elements = get_or (page_pageElements result) [];
                  content_blocks = content_loop repr page_elements [];
                  confirmation_message =
                    ''Slide Content Details for '' @ user_google_email @ '':'' @ nl
                    @ ''- Presentation ID: '' @ presentation_id @ nl
                    @ ''- Page ID: '' @ page_object_id @ nl
                    @ ''- Total Elements: '' @ str_nat (length page_elements) @ nl
                    @ nl
                    @ ''Content Summary:'' @ nl
                    @ (if content_blocks \<noteq> [] then join nl content_blocks
                       else ''  No content found on this slide.'') @ nl;
                  w3 = logger_info (''Slide content retrieved successfully for ''
                         @ user_google_email) w2
              in (Inr confirmation_message, w3)))"

section \<open>copy_slide\<close>

text \<open>The search loop with its \<open>break\<close>: the first slide with the source id decides.\<close>

fun find_insertion_index :: "slide list \<Rightarrow> nat \<Rightarrow> string \<Rightarrow> nat option" where
  "find_insertion_index [] idx source_page_object_id = None"
| "find_insertion_index (slide # rest) idx source_page_object_id =
     (if slide_objectId slide = Some source_page_object_id then Some (idx + 1)
      else find_insertion_index rest (idx + 1) source_page_object_id)"

text \<open>The request loop of \<open>copy_slide\<close>: the same three branches, and no \<open>else\<close>.\<close>

fun build_update_requests :: "update_spec list \<Rightarrow> request list \<Rightarrow> request list" where
  "build_update_requests [] update_requests = update_requests"
| "build_update_requests (upd # rest) update_requests =
     (let element_id = upd_element_id upd;
          update_type = upd_update_type upd
      in if update_type = Some ''shape_text'' then
           (let text = get_or (upd_text upd) ''''
            in build_update_requests rest
                 (update_requests @ [DeleteText element_id None ''ALL'',
                                     InsertText element_id None 0 text]))
         else if update_type = Some ''table_cell'' then
           (let row = upd_row upd;
                col = upd_column upd;
                text = get_or (upd_text upd) '''';
                loc = \<lparr>rowIndex = row, columnIndex = col\<rparr>
            in build_update_requests rest
                 (update_requests @ [DeleteText element_id (Some loc) ''ALL'',
                                     InsertText element_id (Some loc) 0 text]))
         else if update_type = Some ''image_description'' then
           (let description = get_or (upd_description upd) ''''
            in build_update_requests rest
                 (update_requests @ [UpdateImageProperties element_id ''description'' description]))
         else
           build_update_requests rest update_requests)"

definition copy_message ::
  "string \<Rightarrow> string \<Rightarrow> string \<Rightarrow> string \<Rightarrow> nat \<Rightarrow> string \<Rightarrow> string" where
  "copy_message user_google_email presentation_id source_page_object_id new_slide_id
       insertion_index update_summary =
     ''Slide Copied Successfully for '' @ user_google_email @ '':'' @ nl
     @ ''- Presentation ID: '' @ presentation_id @ nl
     @ ''- Source Page ID: '' @ source_page_object_id @ nl
     @ ''- New Slide ID: '' @ new_slide_id @ nl
     @ ''- Insertion Index: '' @ str_nat insertion_index @ nl
     @ update_summary @ nl
     @ ''- URL: https://docs.google.com/presentation/d/'' @ presentation_id
     @ ''/edit#slide=id.'' @ new_slide_id @ nl"

text \<open>
  The block \<open>if updates:\<close> of \<open>copy_slide\<close>, the optional second batch. It yields the
  update summary, or the error the second call raised.
\<close>

definition apply_updates ::
  "remote \<Rightarrow> string \<Rightarrow> update_spec list option \<Rightarrow> world \<Rightarrow> (error + string) \<times> world" where
  "apply_updates service presentation_id updates w =
     (let update_summary = ''''
      in if updates \<noteq> None \<and> updates \<noteq> Some [] then
           (let update_requests = build_update_requests (the updates) []
            in if update_requests \<noteq> [] then
                 (case call_batchUpdate service presentation_id update_requests w of
                    (Inl e, w1) \<Rightarrow> (Inl e, w1)
                  | (Inr update_result, w1) \<Rightarrow>
                      (Inr (nl @ ''- Updates Applied: '' @ str_nat (length update_requests)
                            @ '' request(s) sent, ''
                            @ str_nat (length (get_or (res_replies update_result) []))
                            @ '' replies received.''), w1))
               else (Inr update_summary, w))
         else (Inr update_summary, w))"

definition copy_slide ::
  "remote \<Rightarrow> string \<Rightarrow> string \<Rightarrow> string \<Rightarrow> update_spec list option \<Rightarrow> world
     \<Rightarrow> (error + string) \<times> world" where
  "copy_slide service user_google_email presentation_id source_page_object_id updates w =
     (let w1 = logger_info (''[copy_slide] Invoked. Email: '' @ [CHR 0x27] @ user_google_email
                 @ [CHR 0x27] @ '', Presentation: '' @ [CHR 0x27] @ presentation_id
                 @ [CHR 0x27] @ '', Source Page: '' @ [CHR 0x27] @ source_page_object_id
                 @ [CHR 0x27] @ '', Updates: ''
                 @ str_nat (if updates \<noteq> None \<and> updates \<noteq> Some []
                            then length (the updates) else 0)) w
      in case call_presentations_get service presentation_id w1 of
           (Inl e, w2) \<Rightarrow> (Inl e, w2)
         | (Inr presentation, w2) \<Rightarrow>
             (let slides = get_or (pres_slides presentation) []
              in case find_insertion_index slides 0 source_page_object_id of
                   None \<Rightarrow>
                     (Inr (''Source slide with object ID '' @ [CHR 0x27] @ source_page_object_id
                           @ [CHR 0x27] @ '' not found.''), w2)
                 | Some insertion_index \<Rightarrow>
                     (let requests = [DuplicateObject source_page_object_id insertion_index]
                      in case call_batchUpdate service presentation_id requests w2 of
                           (Inl e, w3) \<Rightarrow> (Inl e, w3)
                         | (Inr batch_result, w3) \<Rightarrow>
                             (case get_or (res_replies batch_result)
                                     [\<lparr>rep_duplicateObject = None\<rparr>] of
                                [] \<Rightarrow> (Inl IndexError, w3)
                              | reply # others \<Rightarrow>
                                  (let new_slide_id =
                                         (case rep_duplicateObject reply of
                                            None \<Rightarrow> None
                                          | Some d \<Rightarrow> dup_objectId d)
                                   in if new_slide_id = None \<or> new_slide_id = Some '''' then
                                        (Inr (''Failed to duplicate slide ''
                                              @ source_page_object_id @ ''.''), w3)
                                      else
                                        (case apply_updates service presentation_id updates w3 of
                                           (Inl e, w4) \<Rightarrow> (Inl e, w4)
                                         | (Inr update_summary, w4) \<Rightarrow>
                                             (let confirmation_message =
                                                    copy_message user_google_email presentation_id
                                                      source_page_object_id (the new_slide_id)
                                                      insertion_index update_summary;
                                                  w5 = logger_info
                                                         (''Slide copied successfully for ''
                                                          @ user_google_email @ '' - New ID: ''
                                                          @ the new_slide_id) w4
                                              in (Inr confirmation_message, w5))))))))"

section \<open>Properties of the request loop\<close>

lemma build_requests_prefix:
  "fst (build_requests us (a @ b) w) = a @ fst (build_requests us b w)"
  by (induction us arbitrary: b w) (simp_all add: Let_def)

lemma build_requests_world_irrelevant:
  "fst (build_requests us reqs w) = fst (build_requests us reqs w')"
  by (induction us arbitrary: reqs w w') (simp_all add: Let_def)

lemma build_requests_acc:
  "fst (build_requests us reqs w) = reqs @ fst (build_requests us [] w)"
  using build_requests_prefix [of us reqs "[]" w] by simp

lemma build_requests_Cons:
  "fst (build_requests (u # us) [] w) = fst (build_requests [u] [] w) @ fst (build_requests us [] w)"
proof -
  have "fst (build_requests (u # us) [] w) = fst (build_requests us (fst (build_requests [u] [] w)) (snd (build_requests [u] [] w)))"
    by (simp add: Let_def)
  also have "\<dots> = fst (build_requests [u] [] w) @ fst (build_requests us [] (snd (build_requests [u] [] w)))"
    by (rule build_requests_acc)
  also have "\<dots> = fst (build_requests [u] [] w) @ fst (build_requests us [] w)"
    using build_requests_world_irrelevant by simp
  finally show ?thesis .
qed

lemma build_requests_append:
  "fst (build_requests (us @ vs) [] w) = fst (build_requests us [] w) @ fst (build_requests vs [] w)"
proof (induction us)
  case Nil
  show ?case by simp
next
  case (Cons u us)
  have "fst (build_requests ((u # us) @ vs) [] w) = fst (build_requests [u] [] w) @ fst (build_requests (us @ vs) [] w)"
    using build_requests_Cons [of u "us @ vs" w] by simp
  also have "\<dots> = fst (build_requests [u] [] w) @ fst (build_requests us [] w) @ fst (build_requests vs [] w)"
    using Cons.IH by simp
  also have "\<dots> = fst (build_requests (u # us) [] w) @ fst (build_requests vs [] w)"
    using build_requests_Cons [of u us w] by simp
  finally show ?case .
qed

lemma build_requests_single:
  "fst (build_requests [upd] [] w) =
     (if upd_update_type upd = Some ''shape_text'' then
        [DeleteText (upd_element_id upd) None ''ALL'',
         InsertText (upd_element_id upd) None 0 (get_or (upd_text upd) '''')]
      else if upd_update_type upd = Some ''table_cell'' then
        [DeleteText (upd_element_id upd)
           (Some \<lparr>rowIndex = upd_row upd, columnIndex = upd_column upd\<rparr>) ''ALL'',
         InsertText (upd_element_id upd)
           (Some \<lparr>rowIndex = upd_row upd, columnIndex = upd_column upd\<rparr>) 0
           (get_or (upd_text upd) '''')]
      else if upd_update_type upd = Some ''image_description'' then
        [UpdateImageProperties (upd_element_id upd) ''description''
           (get_or (upd_description upd) '''')]
      else [])"
  by (simp add: Let_def)

lemma build_requests_length:
  "length (fst (build_requests updates [] w)) =
     2 * length (filter (\<lambda>u. upd_update_type u = Some ''shape_text'') updates)
     + 2 * length (filter (\<lambda>u. upd_update_type u = Some ''table_cell'') updates)
     + length (filter (\<lambda>u. upd_update_type u = Some ''image_description'') updates)"
proof (induction updates)
  case Nil
  show ?case by simp
next
  case (Cons u us)
  have "length (fst (build_requests (u # us) [] w)) =
          length (fst (build_requests [u] [] w)) + length (fst (build_requests us [] w))"
    using build_requests_Cons [of u us w] by simp
  then show ?case
    using Cons.IH by (simp add: build_requests_single del: build_requests.simps)
qed

lemma build_requests_calls: "calls (snd (build_requests us reqs w)) = calls w"
  by (induction us arbitrary: reqs w) (simp_all add: Let_def logger_warning_def)

lemma build_requests_empty_iff:
  "fst (build_requests updates [] w) = [] \<longleftrightarrow>
     (\<forall>u \<in> set updates. upd_update_type u \<noteq> Some ''shape_text''
        \<and> upd_update_type u \<noteq> Some ''table_cell''
        \<and> upd_update_type u \<noteq> Some ''image_description'')"
proof (induction updates)
  case Nil
  show ?case by simp
next
  case (Cons u us)
  have "fst (build_requests (u # us) [] w) = [] \<longleftrightarrow>
          fst (build_requests [u] [] w) = [] \<and> fst (build_requests us [] w) = []"
    using build_requests_Cons [of u us w] by simp
  then show ?case
    using Cons.IH by (simp add: build_requests_single del: build_requests.simps)
qed

lemma build_requests_warnings:
  "length (filter is_warning (log (snd (build_requests us reqs w)))) =
     length (filter is_warning (log w))
     + length (filter (\<lambda>u. upd_update_type u \<noteq> Some ''shape_text''
        \<and> upd_update_type u \<noteq> Some ''table_cell''
        \<and> upd_update_type u \<noteq> Some ''image_description'') us)"
  by (induction us arbitrary: reqs w) (simp_all add: Let_def logger_warning_def)

section \<open>Properties of the summary loop\<close>

lemma build_summary_prefix:
  "fst (build_summary us (a @ b) n) = a @ fst (build_summary us b n)"
  by (induction us arbitrary: b n) (simp_all add: Let_def)

lemma build_summary_idx_irrelevant:
  "fst (build_summary us acc n) = fst (build_summary us acc m)"
  by (induction us arbitrary: acc n m) (simp_all add: Let_def)

lemma build_summary_map:
  "fst (build_summary updates summary n) = summary @
     map (\<lambda>u. if upd_update_type u = Some ''shape_text'' then
                 ''Shape (ID: '' @ fmt_str (upd_element_id u) @ ''): Text updated''
               else if upd_update_type u = Some ''table_cell'' then
                 ''Table (ID: '' @ fmt_str (upd_element_id u) @ ''), Cell (''
                   @ fmt_int (upd_row u) @ '', '' @ fmt_int (upd_column u) @ ''): Text updated''
               else if upd_update_type u = Some ''image_description'' then
                 ''Image (ID: '' @ fmt_str (upd_element_id u) @ ''): Description updated''
               else
                 ''Element (ID: '' @ fmt_str (upd_element_id u) @ ''): Skipped (unknown type)'')
       updates"
  by (induction updates arbitrary: summary n) (simp_all add: Let_def)

lemma build_summary_idx:
  "snd (build_summary updates summary n) = n + length (fst (build_requests updates [] w))"
proof (induction updates arbitrary: summary n)
  case Nil
  show ?case by simp
next
  case (Cons u us)
  have "length (fst (build_requests (u # us) [] w)) =
          length (fst (build_requests [u] [] w)) + length (fst (build_requests us [] w))"
    using build_requests_Cons [of u us w] by simp
  then show ?case
    using Cons.IH by (simp add: build_requests_single Let_def del: build_requests.simps)
qed

section \<open>Properties of update_slide_content\<close>

lemma update_slide_content_short_circuit:
  assumes "fst (build_requests updates [] w) = []"
  shows "fst (update_slide_content service user_google_email presentation_id page_object_id updates w)
           = Inr ''No valid updates were provided.''"
    and "calls (snd (update_slide_content service user_google_email presentation_id page_object_id updates w))
           = calls w"
proof -
  let ?w1 = "logger_info (''[update_slide_content] Invoked. Email: '' @ [CHR 0x27]
                 @ user_google_email @ [CHR 0x27] @ '', Presentation: '' @ [CHR 0x27]
                 @ presentation_id @ [CHR 0x27] @ '', Page: '' @ [CHR 0x27] @ page_object_id
                 @ [CHR 0x27] @ '', Updates: '' @ str_nat (length updates)) w"
  have e: "fst (build_requests updates [] ?w1) = []"
    using assms build_requests_world_irrelevant [of updates "[]" ?w1 w] by simp
  show "fst (update_slide_content service user_google_email presentation_id page_object_id updates w)
           = Inr ''No valid updates were provided.''"
    using e by (simp add: update_slide_content_def Let_def case_prod_beta)
  show "calls (snd (update_slide_content service user_google_email presentation_id page_object_id updates w))
           = calls w"
    using e by (simp add: update_slide_content_def Let_def case_prod_beta build_requests_calls logger_info_def)
qed

lemma update_slide_content_sent:
  assumes "fst (build_requests updates [] w) \<noteq> []"
    and "batchUpdate service (calls w) presentation_id (fst (build_requests updates [] w)) = Inr result"
  shows "fst (update_slide_content service user_google_email presentation_id page_object_id updates w)
           = Inr (update_message user_google_email presentation_id page_object_id (length updates)
                    (length (fst (build_requests updates [] w)))
                    (length (get_or (res_replies result) []))
                    (fst (build_summary updates [] 0)))"
    and "calls (snd (update_slide_content service user_google_email presentation_id page_object_id updates w))
           = calls w @ [BatchUpdate presentation_id (fst (build_requests updates [] w))]"
proof -
  let ?w1 = "logger_info (''[update_slide_content] Invoked. Email: '' @ [CHR 0x27]
                 @ user_google_email @ [CHR 0x27] @ '', Presentation: '' @ [CHR 0x27]
                 @ presentation_id @ [CHR 0x27] @ '', Page: '' @ [CHR 0x27] @ page_object_id
                 @ [CHR 0x27] @ '', Updates: '' @ str_nat (length updates)) w"
  have e: "fst (build_requests updates [] ?w1) = fst (build_requests updates [] w)"
    by (rule build_requests_world_irrelevant)
  have c: "calls (snd (build_requests updates [] ?w1)) = calls w"
    by (simp add: build_requests_calls logger_info_def)
  show "fst (update_slide_content service user_google_email presentation_id page_object_id updates w)
           = Inr (update_message user_google_email presentation_id page_object_id (length updates)
                    (length (fst (build_requests updates [] w)))
                    (length (get_or (res_replies result) []))
                    (fst (build_summary updates [] 0)))"
    using assms e c
    by (simp add: update_slide_content_def Let_def case_prod_beta call_batchUpdate_def)
  show "calls (snd (update_slide_content service user_google_email presentation_id page_object_id updates w))
           = calls w @ [BatchUpdate presentation_id (fst (build_requests updates [] w))]"
    using assms e c
    by (simp add: update_slide_content_def Let_def case_prod_beta call_batchUpdate_def logger_info_def)
qed

lemma update_slide_content_raised:
  assumes "fst (build_requests updates [] w) \<noteq> []"
    and "batchUpdate service (calls w) presentation_id (fst (build_requests updates [] w)) = Inl e"
  shows "calls (snd (update_slide_content service user_google_email presentation_id page_object_id updates w))
           = calls w @ [BatchUpdate presentation_id (fst (build_requests updates [] w))]"
proof -
  let ?w1 = "logger_info (''[update_slide_content] Invoked. Email: '' @ [CHR 0x27]
                 @ user_google_email @ [CHR 0x27] @ '', Presentation: '' @ [CHR 0x27]
                 @ presentation_id @ [CHR 0x27] @ '', Page: '' @ [CHR 0x27] @ page_object_id
                 @ [CHR 0x27] @ '', Updates: '' @ str_nat (length updates)) w"
  have e: "fst (build_requests updates [] ?w1) = fst (build_requests updates [] w)"
    by (rule build_requests_world_irrelevant)
  have c: "calls (snd (build_requests updates [] ?w1)) = calls w"
    by (simp add: build_requests_calls logger_info_def)
  show ?thesis
    using assms e c
    by (simp add: update_slide_content_def Let_def case_prod_beta call_batchUpdate_def)
qed

lemma str_nat_small:
  "str_nat 0 = ''0''" "str_nat (Suc 0) = ''1''" "str_nat 1 = ''1''" "str_nat 2 = ''2''"
  "str_nat 3 = ''3''" "str_nat (Suc (Suc 0)) = ''2''"
  by (simp_all add: str_nat.simps digit_def)

section \<open>Claims about update_slide_content\<close>

text \<open>
  C1. The batch compiled by \<open>update_slide_content\<close> has two requests for each
  \<open>shape_text\<close> spec, two for each \<open>table_cell\<close> spec, one for each
  \<open>image_description\<close> spec and none for any other update type. A spec anywhere in the
  list contributes, between what the specs before it and the specs after it contribute, its
  DeleteText immediately followed by its InsertText (or its single UpdateImageProperties),
  so input order is kept. The compiled list is what is submitted, in one batch, when it is
  not empty.
\<close>

theorem compiled_requests_length_and_order:
  "length (fst (build_requests updates [] w)) =
     2 * length (filter (\<lambda>u. upd_update_type u = Some ''shape_text'') updates)
     + 2 * length (filter (\<lambda>u. upd_update_type u = Some ''table_cell'') updates)
     + length (filter (\<lambda>u. upd_update_type u = Some ''image_description'') updates)
   \<and> fst (build_requests (pre @ upd # post) [] w) =
       fst (build_requests pre [] w)
       @ (if upd_update_type upd = Some ''shape_text'' then
            [DeleteText (upd_element_id upd) None ''ALL'',
             InsertText (upd_element_id upd) None 0 (get_or (upd_text upd) '''')]
          else if upd_update_type upd = Some ''table_cell'' then
            [DeleteText (upd_element_id upd)
               (Some \<lparr>rowIndex = upd_row upd, columnIndex = upd_column upd\<rparr>) ''ALL'',
             InsertText (upd_element_id upd)
               (Some \<lparr>rowIndex = upd_row upd, columnIndex = upd_column upd\<rparr>) 0
               (get_or (upd_text upd) '''')]
          else if upd_update_type upd = Some ''image_description'' then
            [UpdateImageProperties (upd_element_id upd) ''description''
               (get_or (upd_description upd) '''')]
          else [])
       @ fst (build_requests post [] w)
   \<and> calls (snd (update_slide_content service user_google_email presentation_id page_object_id
                    updates w)) =
       calls w @ (if fst (build_requests updates [] w) = [] then []
                  else [BatchUpdate presentation_id (fst (build_requests updates [] w))])"
proof (intro conjI)
  show "length (fst (build_requests updates [] w)) =
     2 * length (filter (\<lambda>u. upd_update_type u = Some ''shape_text'') updates)
     + 2 * length (filter (\<lambda>u. upd_update_type u = Some ''table_cell'') updates)
     + length (filter (\<lambda>u. upd_update_type u = Some ''image_description'') updates)"
    by (rule build_requests_length)
next
  have "fst (build_requests (pre @ upd # post) [] w) =
          fst (build_requests pre [] w) @ fst (build_requests (upd # post) [] w)"
    by (rule build_requests_append)
  also have "fst (build_requests (upd # post) [] w) =
          fst (build_requests [upd] [] w) @ fst (build_requests post [] w)"
    by (rule build_requests_Cons)
  finally show "fst (build_requests (pre @ upd # post) [] w) =
       fst (build_requests pre [] w)
       @ (if upd_update_type upd = Some ''shape_text'' then
            [DeleteText (upd_element_id upd) None ''ALL'',
             InsertText (upd_element_id upd) None 0 (get_or (upd_text upd) '''')]
          else if upd_update_type upd = Some ''table_cell'' then
            [DeleteText (upd_element_id upd)
               (Some \<lparr>rowIndex = upd_row upd, columnIndex = upd_column upd\<rparr>) ''ALL'',
             InsertText (upd_element_id upd)
               (Some \<lparr>rowIndex = upd_row upd, columnIndex = upd_column upd\<rparr>) 0
               (get_or (upd_text upd) '''')]
          else if upd_update_type upd = Some ''image_description'' then
            [UpdateImageProperties (upd_element_id upd) ''description''
               (get_or (upd_description upd) '''')]
          else [])
       @ fst (build_requests post [] w)"
    by (simp only: build_requests_single)
next
  show "calls (snd (update_slide_content service user_google_email presentation_id page_object_id
                    updates w)) =
       calls w @ (if fst (build_requests updates [] w) = [] then []
                  else [BatchUpdate presentation_id (fst (build_requests updates [] w))])"
  proof (cases "fst (build_requests updates [] w) = []")
    case True
    then show ?thesis
      using update_slide_content_short_circuit(2) [of updates w] by simp
  next
    case False
    show ?thesis
    proof (cases "batchUpdate service (calls w) presentation_id (fst (build_requests updates [] w))")
      case (Inl e)
      with False show ?thesis
        using update_slide_content_raised [of updates w service presentation_id e] by simp
    next
      case (Inr result)
      with False show ?thesis
        using update_slide_content_sent(2) [of updates w service presentation_id result] by simp
    qed
  qed
qed

text \<open>
  The scenario of the specification: one \<open>shape_text\<close> spec for element S1 with text Hi
  compiles to DeleteText then InsertText, sent as one batch.
\<close>

theorem compiled_requests_scenario:
  "fst (build_requests
          [\<lparr>upd_element_id = Some ''S1'', upd_update_type = Some ''shape_text'',
            upd_text = Some ''Hi'', upd_row = None, upd_column = None,
            upd_description = None\<rparr>] [] \<lparr>calls = [], log = []\<rparr>) =
     [DeleteText (Some ''S1'') None ''ALL'', InsertText (Some ''S1'') None 0 ''Hi'']
   \<and> calls (snd (update_slide_content
        \<lparr>presentations_get = \<lambda>h p. Inl (RemoteError ''unused''),
         pages_get = \<lambda>h p q. Inl (RemoteError ''unused''),
         batchUpdate = \<lambda>h p rs. Inr \<lparr>res_replies = Some []\<rparr>\<rparr>
        ''me@example.com'' ''P1'' ''p1''
        [\<lparr>upd_element_id = Some ''S1'', upd_update_type = Some ''shape_text'',
          upd_text = Some ''Hi'', upd_row = None, upd_column = None,
          upd_description = None\<rparr>] \<lparr>calls = [], log = []\<rparr>)) =
     [BatchUpdate ''P1'' [DeleteText (Some ''S1'') None ''ALL'',
                          InsertText (Some ''S1'') None 0 ''Hi'']]"
  using compiled_requests_length_and_order
    [of "[\<lparr>upd_element_id = Some ''S1'', upd_update_type = Some ''shape_text'',
            upd_text = Some ''Hi'', upd_row = None, upd_column = None,
            upd_description = None\<rparr>]" "\<lparr>calls = [], log = []\<rparr>" "[]"
        "\<lparr>upd_element_id = Some ''S1'', upd_update_type = Some ''shape_text'',
            upd_text = Some ''Hi'', upd_row = None, upd_column = None,
            upd_description = None\<rparr>" "[]"
        "\<lparr>presentations_get = \<lambda>h p. Inl (RemoteError ''unused''),
         pages_get = \<lambda>h p q. Inl (RemoteError ''unused''),
         batchUpdate = \<lambda>h p rs. Inr \<lparr>res_replies = Some []\<rparr>\<rparr>"
        "''me@example.com''" "''P1''" "''p1''"]
  by (simp add: get_or_def)

text \<open>
  C2. When no spec has a known update type (in particular when the list is empty), the
  compiled batch is empty, \<open>update_slide_content\<close> returns the message
  "No valid updates were provided." and the trace of remote calls is unchanged: no
  batchUpdate is issued.
\<close>

theorem no_valid_updates_short_circuit:
  assumes "\<forall>u \<in> set updates. upd_update_type u \<noteq> Some ''shape_text''
             \<and> upd_update_type u \<noteq> Some ''table_cell''
             \<and> upd_update_type u \<noteq> Some ''image_description''"
  shows "fst (build_requests updates [] w) = []
       \<and> fst (update_slide_content service user_google_email presentation_id page_object_id
                 updates w) = Inr ''No valid updates were provided.''
       \<and> calls (snd (update_slide_content service user_google_email presentation_id
                 page_object_id updates w)) = calls w"
proof -
  have e: "fst (build_requests updates [] w) = []"
    using assms build_requests_empty_iff [of updates w] by simp
  show ?thesis
    using e update_slide_content_short_circuit [OF e] by simp
qed

text \<open>
  The scenario of the specification: a single spec of update type bogus. The run ends with
  the message, no remote call, and a warning in the log.
\<close>

theorem no_valid_updates_witness:
  "update_slide_content
        \<lparr>presentations_get = \<lambda>h p. Inl (RemoteError ''unused''),
         pages_get = \<lambda>h p q. Inl (RemoteError ''unused''),
         batchUpdate = \<lambda>h p rs. Inr \<lparr>res_replies = Some []\<rparr>\<rparr>
        ''me@example.com'' ''P1'' ''p1''
        [\<lparr>upd_element_id = Some ''E1'', upd_update_type = Some ''bogus'',
          upd_text = Some ''Hi'', upd_row = None, upd_column = None,
          upd_description = None\<rparr>] \<lparr>calls = [], log = []\<rparr> =
     (Inr ''No valid updates were provided.'',
      \<lparr>calls = [],
       log = [Info (''[update_slide_content] Invoked. Email: '' @ [CHR 0x27] @ ''me@example.com''
                @ [CHR 0x27] @ '', Presentation: '' @ [CHR 0x27] @ ''P1'' @ [CHR 0x27]
                @ '', Page: '' @ [CHR 0x27] @ ''p1'' @ [CHR 0x27] @ '', Updates: 1''),
              Warning (''Unknown update_type '' @ [CHR 0x27] @ ''bogus'' @ [CHR 0x27]
                @ '' for element E1'')]\<rparr>)"
  using no_valid_updates_short_circuit
    [of "[\<lparr>upd_element_id = Some ''E1'', upd_update_type = Some ''bogus'',
           upd_text = Some ''Hi'', upd_row = None, upd_column = None,
           upd_description = None\<rparr>]" "\<lparr>calls = [], log = []\<rparr>"
        "\<lparr>presentations_get = \<lambda>h p. Inl (RemoteError ''unused''),
         pages_get = \<lambda>h p q. Inl (RemoteError ''unused''),
         batchUpdate = \<lambda>h p rs. Inr \<lparr>res_replies = Some []\<rparr>\<rparr>"
        "''me@example.com''" "''P1''" "''p1''"]
  by (simp add: update_slide_content_def Let_def logger_info_def logger_warning_def
        fmt_str_def str_nat_small)

lemma join_contains:
  assumes "x \<in> set xs"
  shows "\<exists>a b. join sep xs = a @ x @ b"
  using assms
proof (induction sep xs rule: join.induct)
  case (1 sep)
  then show ?case by simp
next
  case (2 sep y)
  then have "join sep [y] = [] @ x @ []" by simp
  then show ?case by blast
next
  case (3 sep y z zs)
  show ?case
  proof (cases "x = y")
    case True
    then have "join sep (y # z # zs) = [] @ x @ (sep @ join sep (z # zs))" by simp
    then show ?thesis by blast
  next
    case False
    then have "x \<in> set (z # zs)" using "3.prems" by simp
    then obtain a b where "join sep (z # zs) = a @ x @ b"
      using "3.IH" by blast
    then have "join sep (y # z # zs) = (y @ sep @ a) @ x @ b" by simp
    then show ?thesis by blast
  qed
qed

text \<open>
  C8. When at least one spec has a known update type and the batch call returns, the
  returned string is the header lines followed, under "Update Summary:", by one summary
  line per input spec, in input order, joined by line feeds. For every spec of an unknown
  update type the line "Element (ID: <element_id>): Skipped (unknown type)" occurs in the
  returned string.
\<close>

theorem summary_one_line_per_spec:
  assumes "\<exists>u \<in> set updates. upd_update_type u = Some ''shape_text''
             \<or> upd_update_type u = Some ''table_cell''
             \<or> upd_update_type u = Some ''image_description''"
    and "batchUpdate service (calls w) presentation_id (fst (build_requests updates [] w))
           = Inr result"
  shows "fst (update_slide_content service user_google_email presentation_id page_object_id
                updates w) =
         Inr (''Slide Content Update Results for '' @ user_google_email @ '':'' @ nl
              @ ''- Presentation ID: '' @ presentation_id @ nl
              @ ''- Page ID: '' @ page_object_id @ nl
              @ ''- Updates Requested: '' @ str_nat (length updates) @ nl
              @ ''- Requests Sent: '' @ str_nat (length (fst (build_requests updates [] w))) @ nl
              @ ''- Replies Received: '' @ str_nat (length (get_or (res_replies result) [])) @ nl
              @ nl
              @ ''Update Summary:'' @ nl
              @ join nl
                  (map (\<lambda>u. if upd_update_type u = Some ''shape_text'' then
                               ''Shape (ID: '' @ fmt_str (upd_element_id u) @ ''): Text updated''
                             else if upd_update_type u = Some ''table_cell'' then
                               ''Table (ID: '' @ fmt_str (upd_element_id u) @ ''), Cell (''
                                 @ fmt_int (upd_row u) @ '', '' @ fmt_int (upd_column u)
                                 @ ''): Text updated''
                             else if upd_update_type u = Some ''image_description'' then
                               ''Image (ID: '' @ fmt_str (upd_element_id u)
                                 @ ''): Description updated''
                             else
                               ''Element (ID: '' @ fmt_str (upd_element_id u)
                                 @ ''): Skipped (unknown type)'')
                     updates)
              @ nl)
       \<and> (\<forall>u \<in> set updates.
             upd_update_type u \<noteq> Some ''shape_text''
             \<and> upd_update_type u \<noteq> Some ''table_cell''
             \<and> upd_update_type u \<noteq> Some ''image_description'' \<longrightarrow>
             (\<exists>a b. fst (update_slide_content service user_google_email presentation_id
                           page_object_id updates w) =
                      Inr (a @ ''Element (ID: '' @ fmt_str (upd_element_id u)
                             @ ''): Skipped (unknown type)'' @ b)))"
proof -
  define line where "line = (\<lambda>u :: update_spec. if upd_update_type u = Some ''shape_text'' then
                               ''Shape (ID: '' @ fmt_str (upd_element_id u) @ ''): Text updated''
                             else if upd_update_type u = Some ''table_cell'' then
                               ''Table (ID: '' @ fmt_str (upd_element_id u) @ ''), Cell (''
                                 @ fmt_int (upd_row u) @ '', '' @ fmt_int (upd_column u)
                                 @ ''): Text updated''
                             else if upd_update_type u = Some ''image_description'' then
                               ''Image (ID: '' @ fmt_str (upd_element_id u)
                                 @ ''): Description updated''
                             else
                               ''Element (ID: '' @ fmt_str (upd_element_id u)
                                 @ ''): Skipped (unknown type)'')"
  define head where "head = ''Slide Content Update Results for '' @ user_google_email @ '':'' @ nl
              @ ''- Presentation ID: '' @ presentation_id @ nl
              @ ''- Page ID: '' @ page_object_id @ nl
              @ ''- Updates Requested: '' @ str_nat (length updates) @ nl
              @ ''- Requests Sent: '' @ str_nat (length (fst (build_requests updates [] w))) @ nl
              @ ''- Replies Received: '' @ str_nat (length (get_or (res_replies result) [])) @ nl
              @ nl
              @ ''Update Summary:'' @ nl"
  have ne: "fst (build_requests updates [] w) \<noteq> []"
    using assms(1) build_requests_empty_iff [of updates w] by blast
  have s: "fst (build_summary updates [] 0) = map line updates"
    using build_summary_map [of updates "[]" 0] by (simp add: line_def)
  have m: "fst (update_slide_content service user_google_email presentation_id page_object_id
                  updates w) = Inr (head @ join nl (map line updates) @ nl)"
    unfolding update_slide_content_sent(1) [OF ne assms(2)] s
    by (simp add: update_message_def head_def)
  have v: "\<exists>a b. fst (update_slide_content service user_google_email presentation_id
                         page_object_id updates w) =
                    Inr (a @ ''Element (ID: '' @ fmt_str (upd_element_id u)
                           @ ''): Skipped (unknown type)'' @ b)"
    if u: "u \<in> set updates"
      and k: "upd_update_type u \<noteq> Some ''shape_text''
             \<and> upd_update_type u \<noteq> Some ''table_cell''
             \<and> upd_update_type u \<noteq> Some ''image_description''" for u
  proof -
    have l: "line u = ''Element (ID: '' @ fmt_str (upd_element_id u)
                         @ ''): Skipped (unknown type)''"
      using k by (simp add: line_def)
    have "line u \<in> set (map line updates)"
      using u by simp
    then obtain a b where j: "join nl (map line updates) = a @ line u @ b"
      using join_contains by blast
    have "fst (update_slide_content service user_google_email presentation_id
                 page_object_id updates w) =
          Inr ((head @ a) @ ''Element (ID: '' @ fmt_str (upd_element_id u)
                 @ ''): Skipped (unknown type)'' @ (b @ nl))"
      unfolding m j l by simp
    then show ?thesis by blast
  qed
  show ?thesis
  proof (intro conjI ballI impI)
    show "fst (update_slide_content service user_google_email presentation_id page_object_id
                updates w) =
         Inr (''Slide Content Update Results for '' @ user_google_email @ '':'' @ nl
              @ ''- Presentation ID: '' @ presentation_id @ nl
              @ ''- Page ID: '' @ page_object_id @ nl
              @ ''- Updates Requested: '' @ str_nat (length updates) @ nl
              @ ''- Requests Sent: '' @ str_nat (length (fst (build_requests updates [] w))) @ nl
              @ ''- Replies Received: '' @ str_nat (length (get_or (res_replies result) [])) @ nl
              @ nl
              @ ''Update Summary:'' @ nl
              @ join nl
                  (map (\<lambda>u. if upd_update_type u = Some ''shape_text'' then
                               ''Shape (ID: '' @ fmt_str (upd_element_id u) @ ''): Text updated''
                             else if upd_update_type u = Some ''table_cell'' then
                               ''Table (ID: '' @ fmt_str (upd_element_id u) @ ''), Cell (''
                                 @ fmt_int (upd_row u) @ '', '' @ fmt_int (upd_column u)
                                 @ ''): Text updated''
                             else if upd_update_type u = Some ''image_description'' then
                               ''Image (ID: '' @ fmt_str (upd_element_id u)
                                 @ ''): Description updated''
                             else
                               ''Element (ID: '' @ fmt_str (upd_element_id u)
                                 @ ''): Skipped (unknown type)'')
                     updates)
              @ nl)"
      using m unfolding head_def line_def by simp
  next
    fix u
    assume "u \<in> set updates"
      and "upd_update_type u \<noteq> Some ''shape_text''
             \<and> upd_update_type u \<noteq> Some ''table_cell''
             \<and> upd_update_type u \<noteq> Some ''image_description''"
    then show "\<exists>a b. fst (update_slide_content service user_google_email presentation_id
                           page_object_id updates w) =
                      Inr (a @ ''Element (ID: '' @ fmt_str (upd_element_id u)
                             @ ''): Skipped (unknown type)'' @ b)"
      by (rule v)
  qed
qed

text \<open>
  A shape_text spec followed by a spec of type bogus: two requests are sent and the
  message has both lines.
\<close>

theorem summary_one_line_per_spec_witness:
  "fst (update_slide_content
        \<lparr>presentations_get = \<lambda>h p. Inl (RemoteError ''unused''),
         pages_get = \<lambda>h p q. Inl (RemoteError ''unused''),
         batchUpdate = \<lambda>h p rs. Inr \<lparr>res_replies = Some []\<rparr>\<rparr>
        ''me@example.com'' ''P1'' ''p1''
        [\<lparr>upd_element_id = Some ''S1'', upd_update_type = Some ''shape_text'',
          upd_text = Some ''Hi'', upd_row = None, upd_column = None,
          upd_description = None\<rparr>,
         \<lparr>upd_element_id = Some ''E2'', upd_update_type = Some ''bogus'',
          upd_text = Some ''Hi'', upd_row = None, upd_column = None,
          upd_description = None\<rparr>] \<lparr>calls = [], log = []\<rparr>) =
     Inr (''Slide Content Update Results for me@example.com:'' @ nl
          @ ''- Presentation ID: P1'' @ nl
          @ ''- Page ID: p1'' @ nl
          @ ''- Updates Requested: 2'' @ nl
          @ ''- Requests Sent: 2'' @ nl
          @ ''- Replies Received: 0'' @ nl
          @ nl
          @ ''Update Summary:'' @ nl
          @ ''Shape (ID: S1): Text updated'' @ nl
          @ ''Element (ID: E2): Skipped (unknown type)'' @ nl)"
  using summary_one_line_per_spec
    [of "[\<lparr>upd_element_id = Some ''S1'', upd_update_type = Some ''shape_text'',
          upd_text = Some ''Hi'', upd_row = None, upd_column = None,
          upd_description = None\<rparr>,
         \<lparr>upd_element_id = Some ''E2'', upd_update_type = Some ''bogus'',
          upd_text = Some ''Hi'', upd_row = None, upd_column = None,
          upd_description = None\<rparr>]"
        "\<lparr>presentations_get = \<lambda>h p. Inl (RemoteError ''unused''),
         pages_get = \<lambda>h p q. Inl (RemoteError ''unused''),
         batchUpdate = \<lambda>h p rs. Inr \<lparr>res_replies = Some []\<rparr>\<rparr>"
        "\<lparr>calls = [], log = []\<rparr>" "''P1''" "\<lparr>res_replies = Some []\<rparr>"
        "''me@example.com''" "''p1''"]
  by (simp add: get_or_def fmt_str_def Let_def str_nat_small)

section \<open>Properties of copy_slide\<close>

lemma find_insertion_index_None_iff:
  "find_insertion_index slides idx src = None \<longleftrightarrow> Some src \<notin> slide_objectId ` set slides"
  by (induction slides arbitrary: idx) auto

lemma find_insertion_index_first:
  assumes "slide_objectId s = Some src"
    and "\<forall>x \<in> set pre. slide_objectId x \<noteq> Some src"
  shows "find_insertion_index (pre @ s # post) idx src = Some (idx + length pre + 1)"
  using assms by (induction pre arbitrary: idx) simp_all

lemma build_update_requests_unknown:
  assumes "\<forall>u \<in> set us. upd_update_type u \<noteq> Some ''shape_text''
             \<and> upd_update_type u \<noteq> Some ''table_cell''
             \<and> upd_update_type u \<noteq> Some ''image_description''"
  shows "build_update_requests us reqs = reqs"
  using assms by (induction us arbitrary: reqs) (simp_all add: Let_def)

lemma apply_updates_calls:
  "\<exists>rest. calls (snd (apply_updates service pid updates w)) = calls w @ rest"
  by (auto simp: apply_updates_def Let_def call_batchUpdate_def split: sum.splits)

lemma copy_slide_not_found_aux:
  assumes "presentations_get service (calls w) presentation_id = Inr pres"
    and "find_insertion_index (get_or (pres_slides pres) []) 0 source_page_object_id = None"
  shows "fst (copy_slide service user_google_email presentation_id source_page_object_id updates w)
           = Inr (''Source slide with object ID '' @ [CHR 0x27] @ source_page_object_id
                  @ [CHR 0x27] @ '' not found.'')"
    and "calls (snd (copy_slide service user_google_email presentation_id source_page_object_id
                  updates w)) = calls w @ [PresentationsGet presentation_id]"
  using assms
  by (simp_all add: copy_slide_def Let_def call_presentations_get_def logger_info_def)

lemma calls_logger_info [simp]: "calls (logger_info m w) = calls w"
  by (simp add: logger_info_def)

lemma log_logger_info [simp]: "log (logger_info m w) = log w @ [Info m]"
  by (simp add: logger_info_def)

lemma copy_slide_dup_raised:
  assumes "presentations_get service (calls w) presentation_id = Inr pres"
    and "find_insertion_index (get_or (pres_slides pres) []) 0 source_page_object_id = Some idx"
    and "batchUpdate service (calls w @ [PresentationsGet presentation_id]) presentation_id
           [DuplicateObject source_page_object_id idx] = Inl e"
  shows "fst (copy_slide service user_google_email presentation_id source_page_object_id updates w)
           = Inl e"
    and "calls (snd (copy_slide service user_google_email presentation_id source_page_object_id
                  updates w)) =
           calls w @ [PresentationsGet presentation_id,
                      BatchUpdate presentation_id [DuplicateObject source_page_object_id idx]]"
  using assms
  by (simp_all add: copy_slide_def Let_def call_presentations_get_def call_batchUpdate_def)

lemma copy_slide_dup_no_reply:
  assumes "presentations_get service (calls w) presentation_id = Inr pres"
    and "find_insertion_index (get_or (pres_slides pres) []) 0 source_page_object_id = Some idx"
    and "batchUpdate service (calls w @ [PresentationsGet presentation_id]) presentation_id
           [DuplicateObject source_page_object_id idx] = Inr batch_result"
    and "get_or (res_replies batch_result) [\<lparr>rep_duplicateObject = None\<rparr>] = []"
  shows "fst (copy_slide service user_google_email presentation_id source_page_object_id updates w)
           = Inl IndexError"
    and "calls (snd (copy_slide service user_google_email presentation_id source_page_object_id
                  updates w)) =
           calls w @ [PresentationsGet presentation_id,
                      BatchUpdate presentation_id [DuplicateObject source_page_object_id idx]]"
  using assms
  by (simp_all add: copy_slide_def Let_def call_presentations_get_def call_batchUpdate_def)

lemma copy_slide_dup_failed:
  assumes "presentations_get service (calls w) presentation_id = Inr pres"
    and "find_insertion_index (get_or (pres_slides pres) []) 0 source_page_object_id = Some idx"
    and "batchUpdate service (calls w @ [PresentationsGet presentation_id]) presentation_id
           [DuplicateObject source_page_object_id idx] = Inr batch_result"
    and "get_or (res_replies batch_result) [\<lparr>rep_duplicateObject = None\<rparr>] = reply # others"
    and "(case rep_duplicateObject reply of None \<Rightarrow> None | Some d \<Rightarrow> dup_objectId d) = None
         \<or> (case rep_duplicateObject reply of None \<Rightarrow> None | Some d \<Rightarrow> dup_objectId d) = Some ''''"
  shows "fst (copy_slide service user_google_email presentation_id source_page_object_id updates w)
           = Inr (''Failed to duplicate slide '' @ source_page_object_id @ ''.'')"
    and "calls (snd (copy_slide service user_google_email presentation_id source_page_object_id
                  updates w)) =
           calls w @ [PresentationsGet presentation_id,
                      BatchUpdate presentation_id [DuplicateObject source_page_object_id idx]]"
  using assms
  by (simp_all add: copy_slide_def Let_def call_presentations_get_def call_batchUpdate_def)

lemma copy_slide_dup_ok:
  assumes "presentations_get service (calls w) presentation_id = Inr pres"
    and "find_insertion_index (get_or (pres_slides pres) []) 0 source_page_object_id = Some idx"
    and "batchUpdate service (calls w @ [PresentationsGet presentation_id]) presentation_id
           [DuplicateObject source_page_object_id idx] = Inr batch_result"
    and "get_or (res_replies batch_result) [\<lparr>rep_duplicateObject = None\<rparr>] = reply # others"
    and "(case rep_duplicateObject reply of None \<Rightarrow> None | Some d \<Rightarrow> dup_objectId d) = Some new_id"
    and "new_id \<noteq> []"
  shows "\<exists>w3. calls w3 = calls w @ [PresentationsGet presentation_id,
                      BatchUpdate presentation_id [DuplicateObject source_page_object_id idx]]
          \<and> filter is_warning (log w3) = filter is_warning (log w)
          \<and> copy_slide service user_google_email presentation_id source_page_object_id updates w =
              (case apply_updates service presentation_id updates w3 of
                 (Inl e, w4) \<Rightarrow> (Inl e, w4)
               | (Inr update_summary, w4) \<Rightarrow>
                   (Inr (copy_message user_google_email presentation_id source_page_object_id
                           new_id idx update_summary),
                    logger_info (''Slide copied successfully for '' @ user_google_email
                                 @ '' - New ID: '' @ new_id) w4))"
proof -
  let ?w1 = "logger_info (''[copy_slide] Invoked. Email: '' @ [CHR 0x27] @ user_google_email
                 @ [CHR 0x27] @ '', Presentation: '' @ [CHR 0x27] @ presentation_id
                 @ [CHR 0x27] @ '', Source Page: '' @ [CHR 0x27] @ source_page_object_id
                 @ [CHR 0x27] @ '', Updates: ''
                 @ str_nat (if updates \<noteq> None \<and> updates \<noteq> Some []
                            then length (the updates) else 0)) w"
  let ?w3 = "?w1\<lparr>calls := calls w @ [PresentationsGet presentation_id,
                      BatchUpdate presentation_id [DuplicateObject source_page_object_id idx]]\<rparr>"
  have "calls ?w3 = calls w @ [PresentationsGet presentation_id,
                      BatchUpdate presentation_id [DuplicateObject source_page_object_id idx]]"
    by simp
  moreover have "filter is_warning (log ?w3) = filter is_warning (log w)"
    by simp
  moreover have "copy_slide service user_google_email presentation_id source_page_object_id updates w =
              (case apply_updates service presentation_id updates ?w3 of
                 (Inl e, w4) \<Rightarrow> (Inl e, w4)
               | (Inr update_summary, w4) \<Rightarrow>
                   (Inr (copy_message user_google_email presentation_id source_page_object_id
                           new_id idx update_summary),
                    logger_info (''Slide copied successfully for '' @ user_google_email
                                 @ '' - New ID: '' @ new_id) w4))"
    using assms
    by (simp add: copy_slide_def Let_def call_presentations_get_def call_batchUpdate_def
          split: prod.split sum.split)
  ultimately show ?thesis by blast
qed

lemma copy_slide_found_calls:
  assumes "presentations_get service (calls w) presentation_id = Inr pres"
    and "find_insertion_index (get_or (pres_slides pres) []) 0 source_page_object_id = Some idx"
  shows "\<exists>rest. calls (snd (copy_slide service user_google_email presentation_id
                    source_page_object_id updates w)) =
           calls w @ [PresentationsGet presentation_id,
                      BatchUpdate presentation_id [DuplicateObject source_page_object_id idx]]
           @ rest"
proof (cases "batchUpdate service (calls w @ [PresentationsGet presentation_id]) presentation_id
           [DuplicateObject source_page_object_id idx]")
  case (Inl e)
  show ?thesis
    using copy_slide_dup_raised(2) [OF assms Inl] by simp
next
  case (Inr batch_result)
  show ?thesis
  proof (cases "get_or (res_replies batch_result) [\<lparr>rep_duplicateObject = None\<rparr>]")
    case Nil
    show ?thesis
      using copy_slide_dup_no_reply(2) [OF assms Inr Nil] by simp
  next
    case (Cons reply others)
    show ?thesis
    proof (cases "(case rep_duplicateObject reply of None \<Rightarrow> None | Some d \<Rightarrow> dup_objectId d) = None
         \<or> (case rep_duplicateObject reply of None \<Rightarrow> None | Some d \<Rightarrow> dup_objectId d) = Some ''''")
      case True
      show ?thesis
        using copy_slide_dup_failed(2) [OF assms Inr Cons True] by simp
    next
      case False
      then obtain new_id where
        n: "(case rep_duplicateObject reply of None \<Rightarrow> None | Some d \<Rightarrow> dup_objectId d) = Some new_id"
        and ne: "new_id \<noteq> []"
        by auto
      obtain w3 where
        c3: "calls w3 = calls w @ [PresentationsGet presentation_id,
                      BatchUpdate presentation_id [DuplicateObject source_page_object_id idx]]"
        and eq: "copy_slide service user_google_email presentation_id source_page_object_id updates w =
              (case apply_updates service presentation_id updates w3 of
                 (Inl e, w4) \<Rightarrow> (Inl e, w4)
               | (Inr update_summary, w4) \<Rightarrow>
                   (Inr (copy_message user_google_email presentation_id source_page_object_id
                           new_id idx update_summary),
                    logger_info (''Slide copied successfully for '' @ user_google_email
                                 @ '' - New ID: '' @ new_id) w4))"
        using copy_slide_dup_ok [OF assms Inr Cons n ne] by blast
      obtain rest where
        r: "calls (snd (apply_updates service presentation_id updates w3)) = calls w3 @ rest"
        using apply_updates_calls by blast
      have "calls (snd (copy_slide service user_google_email presentation_id
                    source_page_object_id updates w)) =
            calls (snd (apply_updates service presentation_id updates w3))"
        unfolding eq by (simp split: prod.splits sum.splits)
      then show ?thesis
        using r c3 by simp
    qed
  qed
qed

lemma apply_updates_unknown:
  assumes "\<forall>u \<in> set updates. upd_update_type u \<noteq> Some ''shape_text''
             \<and> upd_update_type u \<noteq> Some ''table_cell''
             \<and> upd_update_type u \<noteq> Some ''image_description''"
  shows "apply_updates service presentation_id (Some updates) w = (Inr '''', w)"
  using build_update_requests_unknown [OF assms, of "[]"]
  by (simp add: apply_updates_def Let_def)

lemma update_slide_content_short_circuit_warnings:
  assumes "fst (build_requests updates [] w) = []"
  shows "length (filter is_warning (log (snd (update_slide_content service user_google_email
            presentation_id page_object_id updates w)))) =
         length (filter is_warning (log w)) + length updates"
proof -
  let ?w1 = "logger_info (''[update_slide_content] Invoked. Email: '' @ [CHR 0x27]
                 @ user_google_email @ [CHR 0x27] @ '', Presentation: '' @ [CHR 0x27]
                 @ presentation_id @ [CHR 0x27] @ '', Page: '' @ [CHR 0x27] @ page_object_id
                 @ [CHR 0x27] @ '', Updates: '' @ str_nat (length updates)) w"
  have e: "fst (build_requests updates [] ?w1) = []"
    using assms build_requests_world_irrelevant [of updates "[]" ?w1 w] by simp
  have u: "\<forall>u \<in> set updates. upd_update_type u \<noteq> Some ''shape_text''
             \<and> upd_update_type u \<noteq> Some ''table_cell''
             \<and> upd_update_type u \<noteq> Some ''image_description''"
    using assms build_requests_empty_iff [of updates w] by simp
  have f: "filter (\<lambda>u. upd_update_type u \<noteq> Some ''shape_text''
             \<and> upd_update_type u \<noteq> Some ''table_cell''
             \<and> upd_update_type u \<noteq> Some ''image_description'') updates = updates"
    using u by (simp add: filter_id_conv)
  have "snd (update_slide_content service user_google_email presentation_id page_object_id
          updates w) = snd (build_requests updates [] ?w1)"
    using e by (simp add: update_slide_content_def Let_def case_prod_beta)
  then show ?thesis
    using build_requests_warnings [of updates "[]" ?w1] f by simp
qed

section \<open>Claims about copy_slide\<close>

text \<open>
  C5. When the presentation is fetched and no slide of it has the source id,
  \<open>copy_slide\<close> returns the not-found message that names the id, and the only remote
  call it has issued is the fetch: no batchUpdate.
\<close>

theorem copy_slide_source_not_found:
  assumes "presentations_get service (calls w) presentation_id = Inr pres"
    and "Some source_page_object_id \<notin> slide_objectId ` set (get_or (pres_slides pres) [])"
  shows "fst (copy_slide service user_google_email presentation_id source_page_object_id
                updates w) =
           Inr (''Source slide with object ID '' @ [CHR 0x27] @ source_page_object_id
                @ [CHR 0x27] @ '' not found.'')
       \<and> calls (snd (copy_slide service user_google_email presentation_id
                  source_page_object_id updates w)) =
           calls w @ [PresentationsGet presentation_id]"
proof -
  have n: "find_insertion_index (get_or (pres_slides pres) []) 0 source_page_object_id = None"
    using assms(2) find_insertion_index_None_iff by blast
  show ?thesis
    using copy_slide_not_found_aux [OF assms(1) n] by simp
qed

theorem copy_slide_source_not_found_witness:
  "copy_slide
     \<lparr>presentations_get = \<lambda>h p. Inr \<lparr>pres_slides =
          Some [\<lparr>slide_objectId = Some ''s1''\<rparr>, \<lparr>slide_objectId = Some ''s2''\<rparr>]\<rparr>,
      pages_get = \<lambda>h p q. Inl (RemoteError ''unused''),
      batchUpdate = \<lambda>h p rs. Inr \<lparr>res_replies = Some []\<rparr>\<rparr>
     ''me@example.com'' ''P1'' ''s9'' None \<lparr>calls = [], log = []\<rparr> =
   (Inr (''Source slide with object ID '' @ [CHR 0x27] @ ''s9'' @ [CHR 0x27] @ '' not found.''),
    \<lparr>calls = [PresentationsGet ''P1''],
     log = [Info (''[copy_slide] Invoked. Email: '' @ [CHR 0x27] @ ''me@example.com''
              @ [CHR 0x27] @ '', Presentation: '' @ [CHR 0x27] @ ''P1'' @ [CHR 0x27]
              @ '', Source Page: '' @ [CHR 0x27] @ ''s9'' @ [CHR 0x27] @ '', Updates: 0'')]\<rparr>)"
  using copy_slide_source_not_found
    [of "\<lparr>presentations_get = \<lambda>h p. Inr \<lparr>pres_slides =
          Some [\<lparr>slide_objectId = Some ''s1''\<rparr>, \<lparr>slide_objectId = Some ''s2''\<rparr>]\<rparr>,
      pages_get = \<lambda>h p q. Inl (RemoteError ''unused''),
      batchUpdate = \<lambda>h p rs. Inr \<lparr>res_replies = Some []\<rparr>\<rparr>"
        "\<lparr>calls = [], log = []\<rparr>" "''P1''"
        "\<lparr>pres_slides =
          Some [\<lparr>slide_objectId = Some ''s1''\<rparr>, \<lparr>slide_objectId = Some ''s2''\<rparr>]\<rparr>"
        "''s9''" "''me@example.com''" None]
  by (simp add: copy_slide_def Let_def call_presentations_get_def get_or_def logger_info_def
        str_nat_small)

text \<open>
  C6. When the source slide is found, the batch submitted right after the fetch is the
  single request DuplicateObject whose insertionIndex is the zero-based position of the
  first slide with the source id, plus one, however many slides come before or after.
\<close>

theorem copy_slide_insertion_index:
  assumes "presentations_get service (calls w) presentation_id = Inr pres"
    and "get_or (pres_slides pres) [] = pre @ s # post"
    and "slide_objectId s = Some source_page_object_id"
    and "\<forall>x \<in> set pre. slide_objectId x \<noteq> Some source_page_object_id"
  shows "\<exists>rest. calls (snd (copy_slide service user_google_email presentation_id
                    source_page_object_id updates w)) =
           calls w @ [PresentationsGet presentation_id,
                      BatchUpdate presentation_id
                        [DuplicateObject source_page_object_id (length pre + 1)]]
           @ rest"
proof -
  have f: "find_insertion_index (get_or (pres_slides pres) []) 0 source_page_object_id
             = Some (length pre + 1)"
    using find_insertion_index_first [OF assms(3) assms(4), of post 0] assms(2) by simp
  show ?thesis
    by (rule copy_slide_found_calls [OF assms(1) f])
qed

theorem copy_slide_insertion_index_witness:
  "calls (snd (copy_slide
     \<lparr>presentations_get = \<lambda>h p. Inr \<lparr>pres_slides =
          Some [\<lparr>slide_objectId = Some ''s1''\<rparr>, \<lparr>slide_objectId = Some ''s2''\<rparr>,
                \<lparr>slide_objectId = Some ''s3''\<rparr>, \<lparr>slide_objectId = Some ''s4''\<rparr>,
                \<lparr>slide_objectId = Some ''s3''\<rparr>]\<rparr>,
      pages_get = \<lambda>h p q. Inl (RemoteError ''unused''),
      batchUpdate = \<lambda>h p rs. Inr \<lparr>res_replies =
          Some [\<lparr>rep_duplicateObject = Some \<lparr>dup_objectId = Some ''n1''\<rparr>\<rparr>]\<rparr>\<rparr>
     ''me@example.com'' ''P1'' ''s3'' None \<lparr>calls = [], log = []\<rparr>)) =
   [PresentationsGet ''P1'', BatchUpdate ''P1'' [DuplicateObject ''s3'' 3]]"
  using copy_slide_insertion_index
    [of "\<lparr>presentations_get = \<lambda>h p. Inr \<lparr>pres_slides =
          Some [\<lparr>slide_objectId = Some ''s1''\<rparr>, \<lparr>slide_objectId = Some ''s2''\<rparr>,
                \<lparr>slide_objectId = Some ''s3''\<rparr>, \<lparr>slide_objectId = Some ''s4''\<rparr>,
                \<lparr>slide_objectId = Some ''s3''\<rparr>]\<rparr>,
      pages_get = \<lambda>h p q. Inl (RemoteError ''unused''),
      batchUpdate = \<lambda>h p rs. Inr \<lparr>res_replies =
          Some [\<lparr>rep_duplicateObject = Some \<lparr>dup_objectId = Some ''n1''\<rparr>\<rparr>]\<rparr>\<rparr>"
        "\<lparr>calls = [], log = []\<rparr>" "''P1''"
        "\<lparr>pres_slides =
          Some [\<lparr>slide_objectId = Some ''s1''\<rparr>, \<lparr>slide_objectId = Some ''s2''\<rparr>,
                \<lparr>slide_objectId = Some ''s3''\<rparr>, \<lparr>slide_objectId = Some ''s4''\<rparr>,
                \<lparr>slide_objectId = Some ''s3''\<rparr>]\<rparr>"
        "[\<lparr>slide_objectId = Some ''s1''\<rparr>, \<lparr>slide_objectId = Some ''s2''\<rparr>]"
        "\<lparr>slide_objectId = Some ''s3''\<rparr>"
        "[\<lparr>slide_objectId = Some ''s4''\<rparr>, \<lparr>slide_objectId = Some ''s3''\<rparr>]"
        "''s3''" "''me@example.com''" None]
  by (simp add: copy_slide_def Let_def call_presentations_get_def call_batchUpdate_def
        get_or_def apply_updates_def numeral_3_eq_3)

text \<open>
  C7. When the duplication batch returns and its first reply carries no new object id
  (none at all, or an empty one), \<open>copy_slide\<close> returns the duplication-failure
  message, and the fetch and the duplication batch are the only remote calls, whatever
  \<open>updates\<close> is.
\<close>

theorem copy_slide_duplication_failure:
  assumes "presentations_get service (calls w) presentation_id = Inr pres"
    and "find_insertion_index (get_or (pres_slides pres) []) 0 source_page_object_id = Some idx"
    and "batchUpdate service (calls w @ [PresentationsGet presentation_id]) presentation_id
           [DuplicateObject source_page_object_id idx] = Inr batch_result"
    and "get_or (res_replies batch_result) [\<lparr>rep_duplicateObject = None\<rparr>] = reply # others"
    and "(case rep_duplicateObject reply of None \<Rightarrow> None | Some d \<Rightarrow> dup_objectId d) = None
         \<or> (case rep_duplicateObject reply of None \<Rightarrow> None | Some d \<Rightarrow> dup_objectId d) = Some ''''"
  shows "fst (copy_slide service user_google_email presentation_id source_page_object_id
                updates w) =
           Inr (''Failed to duplicate slide '' @ source_page_object_id @ ''.'')
       \<and> calls (snd (copy_slide service user_google_email presentation_id
                  source_page_object_id updates w)) =
           calls w @ [PresentationsGet presentation_id,
                      BatchUpdate presentation_id [DuplicateObject source_page_object_id idx]]"
  using copy_slide_dup_failed [OF assms] by simp

theorem copy_slide_duplication_failure_witness:
  "fst (copy_slide
     \<lparr>presentations_get = \<lambda>h p. Inr \<lparr>pres_slides =
          Some [\<lparr>slide_objectId = Some ''s1''\<rparr>, \<lparr>slide_objectId = Some ''s2''\<rparr>]\<rparr>,
      pages_get = \<lambda>h p q. Inl (RemoteError ''unused''),
      batchUpdate = \<lambda>h p rs. Inr \<lparr>res_replies = Some [\<lparr>rep_duplicateObject = None\<rparr>]\<rparr>\<rparr>
     ''me@example.com'' ''P1'' ''s2''
     (Some [\<lparr>upd_element_id = Some ''S1'', upd_update_type = Some ''shape_text'',
             upd_text = Some ''Hi'', upd_row = None, upd_column = None,
             upd_description = None\<rparr>])
     \<lparr>calls = [], log = []\<rparr>) = Inr ''Failed to duplicate slide s2.''
   \<and> calls (snd (copy_slide
     \<lparr>presentations_get = \<lambda>h p. Inr \<lparr>pres_slides =
          Some [\<lparr>slide_objectId = Some ''s1''\<rparr>, \<lparr>slide_objectId = Some ''s2''\<rparr>]\<rparr>,
      pages_get = \<lambda>h p q. Inl (RemoteError ''unused''),
      batchUpdate = \<lambda>h p rs. Inr \<lparr>res_replies = Some [\<lparr>rep_duplicateObject = None\<rparr>]\<rparr>\<rparr>
     ''me@example.com'' ''P1'' ''s2''
     (Some [\<lparr>upd_element_id = Some ''S1'', upd_update_type = Some ''shape_text'',
             upd_text = Some ''Hi'', upd_row = None, upd_column = None,
             upd_description = None\<rparr>])
     \<lparr>calls = [], log = []\<rparr>)) =
     [PresentationsGet ''P1'', BatchUpdate ''P1'' [DuplicateObject ''s2'' 2]]"
  using copy_slide_duplication_failure
    [of "\<lparr>presentations_get = \<lambda>h p. Inr \<lparr>pres_slides =
          Some [\<lparr>slide_objectId = Some ''s1''\<rparr>, \<lparr>slide_objectId = Some ''s2''\<rparr>]\<rparr>,
      pages_get = \<lambda>h p q. Inl (RemoteError ''unused''),
      batchUpdate = \<lambda>h p rs. Inr \<lparr>res_replies = Some [\<lparr>rep_duplicateObject = None\<rparr>]\<rparr>\<rparr>"
        "\<lparr>calls = [], log = []\<rparr>" "''P1''"
        "\<lparr>pres_slides =
          Some [\<lparr>slide_objectId = Some ''s1''\<rparr>, \<lparr>slide_objectId = Some ''s2''\<rparr>]\<rparr>"
        "''s2''" 2 "\<lparr>res_replies = Some [\<lparr>rep_duplicateObject = None\<rparr>]\<rparr>"
        "\<lparr>rep_duplicateObject = None\<rparr>" "[]" "''me@example.com''"
        "Some [\<lparr>upd_element_id = Some ''S1'', upd_update_type = Some ''shape_text'',
             upd_text = Some ''Hi'', upd_row = None, upd_column = None,
             upd_description = None\<rparr>]"]
  by (simp add: get_or_def numeral_2_eq_2)

text \<open>
  C10. When \<open>updates\<close> is not empty and every spec in it has an unknown update type, and
  the fetch and the duplication succeed with a new slide id, \<open>copy_slide\<close> returns
  the "Slide Copied Successfully" message, in which an empty line stands where the
  "Updates Applied" line would be; its remote calls are the fetch and the duplication
  batch only, and it writes no warning.
  \<open>update_slide_content\<close> on the same list writes one warning per spec.
\<close>

theorem copy_slide_unknown_only_updates:
  assumes "updates \<noteq> []"
    and "\<forall>u \<in> set updates. upd_update_type u \<noteq> Some ''shape_text''
             \<and> upd_update_type u \<noteq> Some ''table_cell''
             \<and> upd_update_type u \<noteq> Some ''image_description''"
    and "presentations_get service (calls w) presentation_id = Inr pres"
    and "find_insertion_index (get_or (pres_slides pres) []) 0 source_page_object_id = Some idx"
    and "batchUpdate service (calls w @ [PresentationsGet presentation_id]) presentation_id
           [DuplicateObject source_page_object_id idx] = Inr batch_result"
    and "get_or (res_replies batch_result) [\<lparr>rep_duplicateObject = None\<rparr>] = reply # others"
    and "(case rep_duplicateObject reply of None \<Rightarrow> None | Some d \<Rightarrow> dup_objectId d) = Some new_id"
    and "new_id \<noteq> []"
  shows "fst (copy_slide service user_google_email presentation_id source_page_object_id
                (Some updates) w) =
           Inr (''Slide Copied Successfully for '' @ user_google_email @ '':'' @ nl
                @ ''- Presentation ID: '' @ presentation_id @ nl
                @ ''- Source Page ID: '' @ source_page_object_id @ nl
                @ ''- New Slide ID: '' @ new_id @ nl
                @ ''- Insertion Index: '' @ str_nat idx @ nl
                @ nl
                @ ''- URL: https://docs.google.com/presentation/d/'' @ presentation_id
                @ ''/edit#slide=id.'' @ new_id @ nl)
       \<and> calls (snd (copy_slide service user_google_email presentation_id
                  source_page_object_id (Some updates) w)) =
           calls w @ [PresentationsGet presentation_id,
                      BatchUpdate presentation_id [DuplicateObject source_page_object_id idx]]
       \<and> filter is_warning (log (snd (copy_slide service user_google_email presentation_id
                  source_page_object_id (Some updates) w))) = filter is_warning (log w)
       \<and> length (filter is_warning (log (snd (update_slide_content service user_google_email
                  presentation_id page_object_id updates w)))) =
           length (filter is_warning (log w)) + length updates"
proof -
  obtain w3 where
    c3: "calls w3 = calls w @ [PresentationsGet presentation_id,
                      BatchUpdate presentation_id [DuplicateObject source_page_object_id idx]]"
    and l3: "filter is_warning (log w3) = filter is_warning (log w)"
    and eq: "copy_slide service user_google_email presentation_id source_page_object_id
               (Some updates) w =
              (case apply_updates service presentation_id (Some updates) w3 of
                 (Inl e, w4) \<Rightarrow> (Inl e, w4)
               | (Inr update_summary, w4) \<Rightarrow>
                   (Inr (copy_message user_google_email presentation_id source_page_object_id
                           new_id idx update_summary),
                    logger_info (''Slide copied successfully for '' @ user_google_email
                                 @ '' - New ID: '' @ new_id) w4))"
    using copy_slide_dup_ok [OF assms(3) assms(4) assms(5) assms(6) assms(7) assms(8)] by blast
  have a: "apply_updates service presentation_id (Some updates) w3 = (Inr '''', w3)"
    by (rule apply_updates_unknown [OF assms(2)])
  have e: "fst (build_requests updates [] w) = []"
    using assms(2) build_requests_empty_iff [of updates w] by simp
  show ?thesis
    unfolding eq a
    using c3 l3 update_slide_content_short_circuit_warnings [OF e]
    by (simp add: copy_message_def)
qed

theorem copy_slide_unknown_only_updates_witness:
  "copy_slide
     \<lparr>presentations_get = \<lambda>h p. Inr \<lparr>pres_slides =
          Some [\<lparr>slide_objectId = Some ''s1''\<rparr>, \<lparr>slide_objectId = Some ''s2''\<rparr>]\<rparr>,
      pages_get = \<lambda>h p q. Inl (RemoteError ''unused''),
      batchUpdate = \<lambda>h p rs. Inr \<lparr>res_replies =
          Some [\<lparr>rep_duplicateObject = Some \<lparr>dup_objectId = Some ''n1''\<rparr>\<rparr>]\<rparr>\<rparr>
     ''me@example.com'' ''P1'' ''s1''
     (Some [\<lparr>upd_element_id = Some ''E1'', upd_update_type = Some ''bogus'',
             upd_text = Some ''Hi'', upd_row = None, upd_column = None,
             upd_description = None\<rparr>])
     \<lparr>calls = [], log = []\<rparr> =
   (Inr (''Slide Copied Successfully for me@example.com:'' @ nl
         @ ''- Presentation ID: P1'' @ nl
         @ ''- Source Page ID: s1'' @ nl
         @ ''- New Slide ID: n1'' @ nl
         @ ''- Insertion Index: 1'' @ nl
         @ nl
         @ ''- URL: https://docs.google.com/presentation/d/P1/edit#slide=id.n1'' @ nl),
    \<lparr>calls = [PresentationsGet ''P1'', BatchUpdate ''P1'' [DuplicateObject ''s1'' 1]],
     log = [Info (''[copy_slide] Invoked. Email: '' @ [CHR 0x27] @ ''me@example.com''
              @ [CHR 0x27] @ '', Presentation: '' @ [CHR 0x27] @ ''P1'' @ [CHR 0x27]
              @ '', Source Page: '' @ [CHR 0x27] @ ''s1'' @ [CHR 0x27] @ '', Updates: 1''),
            Info ''Slide copied successfully for me@example.com - New ID: n1'']\<rparr>)"
  using copy_slide_unknown_only_updates
    [of "[\<lparr>upd_element_id = Some ''E1'', upd_update_type = Some ''bogus'',
             upd_text = Some ''Hi'', upd_row = None, upd_column = None,
             upd_description = None\<rparr>]"
        "\<lparr>presentations_get = \<lambda>h p. Inr \<lparr>pres_slides =
          Some [\<lparr>slide_objectId = Some ''s1''\<rparr>, \<lparr>slide_objectId = Some ''s2''\<rparr>]\<rparr>,
      pages_get = \<lambda>h p q. Inl (RemoteError ''unused''),
      batchUpdate = \<lambda>h p rs. Inr \<lparr>res_replies =
          Some [\<lparr>rep_duplicateObject = Some \<lparr>dup_objectId = Some ''n1''\<rparr>\<rparr>]\<rparr>\<rparr>"
        "\<lparr>calls = [], log = []\<rparr>" "''P1''"
        "\<lparr>pres_slides =
          Some [\<lparr>slide_objectId = Some ''s1''\<rparr>, \<lparr>slide_objectId = Some ''s2''\<rparr>]\<rparr>"
        "''s1''" 1
        "\<lparr>res_replies =
          Some [\<lparr>rep_duplicateObject = Some \<lparr>dup_objectId = Some ''n1''\<rparr>\<rparr>]\<rparr>"
        "\<lparr>rep_duplicateObject = Some \<lparr>dup_objectId = Some ''n1''\<rparr>\<rparr>" "[]" "''n1''"
        "''me@example.com''" "''p1''"]
  by (simp add: copy_slide_def Let_def call_presentations_get_def call_batchUpdate_def
        get_or_def apply_updates_def logger_info_def str_nat_small copy_message_def)

section \<open>Properties of the extraction loops\<close>

lemma concat_runs_prefix:
  "concat_runs text_elements (a @ b) = a @ concat_runs text_elements b"
  by (induction text_elements arbitrary: b) (simp_all split: option.splits)

lemma concat_runs_concat:
  "concat_runs text_elements text_content =
     text_content @ concat (map (\<lambda>te. case te_textRun te of
                                         None \<Rightarrow> ''''
                                       | Some run \<Rightarrow> get_or (run_content run) '''')
                              text_elements)"
  by (induction text_elements arbitrary: text_content) (simp_all split: option.splits)

lemma row_loop_length:
  "length (row_loop repr cells row_idx table_content) = length table_content + length cells"
  by (induction cells arbitrary: row_idx table_content) (simp_all add: Let_def)

lemma cell_loop_length:
  "length (cell_loop cells cell_row) = length cell_row + length cells"
  by (induction cells arbitrary: cell_row) (simp_all add: Let_def)

lemma page_elements_info_prefix:
  "page_elements_info page_elements (a @ b) = a @ page_elements_info page_elements b"
  by (induction page_elements arbitrary: b) (simp_all add: Let_def split: option.splits)

lemma page_elements_info_append:
  "page_elements_info (xs @ ys) acc = page_elements_info ys (page_elements_info xs acc)"
  by (induction xs arbitrary: acc) (simp_all add: Let_def split: option.splits)

lemma page_elements_info_split:
  "page_elements_info (pre @ e # post) [] =
     page_elements_info pre [] @ page_elements_info [e] [] @ page_elements_info post []"
proof -
  have "page_elements_info (pre @ e # post) [] =
          page_elements_info ([e] @ post) (page_elements_info pre [])"
    using page_elements_info_append [of pre "e # post" "[]"] by simp
  also have "\<dots> = page_elements_info post (page_elements_info [e] (page_elements_info pre []))"
    by (rule page_elements_info_append)
  also have "\<dots> = page_elements_info post (page_elements_info pre [] @ page_elements_info [e] [])"
    using page_elements_info_prefix [of "[e]" "page_elements_info pre []" "[]"] by simp
  also have "\<dots> = (page_elements_info pre [] @ page_elements_info [e] []) @ page_elements_info post []"
    using page_elements_info_prefix
            [of post "page_elements_info pre [] @ page_elements_info [e] []" "[]"]
    by simp
  finally show ?thesis by simp
qed

lemma content_loop_prefix:
  "content_loop repr page_elements (a @ b) = a @ content_loop repr page_elements b"
  by (induction page_elements arbitrary: b) (simp_all add: Let_def split: option.splits)

lemma content_loop_append:
  "content_loop repr (xs @ ys) acc = content_loop repr ys (content_loop repr xs acc)"
  by (induction xs arbitrary: acc) (simp_all add: Let_def split: option.splits)

lemma content_loop_split:
  "content_loop repr (pre @ e # post) [] =
     content_loop repr pre [] @ content_loop repr [e] [] @ content_loop repr post []"
proof -
  have "content_loop repr (pre @ e # post) [] =
          content_loop repr ([e] @ post) (content_loop repr pre [])"
    using content_loop_append [of repr pre "e # post" "[]"] by simp
  also have "\<dots> = content_loop repr post (content_loop repr [e] (content_loop repr pre []))"
    by (rule content_loop_append)
  also have "\<dots> = content_loop repr post (content_loop repr pre [] @ content_loop repr [e] [])"
    using content_loop_prefix [of repr "[e]" "content_loop repr pre []" "[]"] by simp
  also have "\<dots> = (content_loop repr pre [] @ content_loop repr [e] []) @ content_loop repr post []"
    using content_loop_prefix
            [of repr post "content_loop repr pre [] @ content_loop repr [e] []" "[]"]
    by simp
  finally show ?thesis by simp
qed

lemma content_loop_length:
  "length (content_loop repr page_elements content_blocks) =
     length content_blocks + length page_elements"
  by (induction page_elements arbitrary: content_blocks)
     (simp_all add: Let_def split: option.splits)

lemma content_loop_single_length: "length (content_loop repr [e] []) = 1"
  using content_loop_length [of repr "[e]" "[]"] by simp

lemma content_loop_shape:
  assumes "el_shape e = Some shape"
  shows "content_loop repr [e] [] =
     [''[Shape] ID: '' @ get_or (el_objectId e) ''Unknown'' @ '', Type: ''
        @ get_or (shape_shapeType shape) ''Unknown'' @ nl @ ''  Text: ''
        @ (let text_content =
                 (case shape_text shape of
                    Some body \<Rightarrow>
                      concat (map (\<lambda>te. case te_textRun te of
                                          None \<Rightarrow> ''''
                                        | Some run \<Rightarrow> get_or (run_content run) '''')
                               (get_or (txt_textElements body) []))
                  | None \<Rightarrow> '''')
           in if text_content \<noteq> [] then strip text_content else ''(empty)'')]"
  using assms
  by (cases "shape_text shape")
     (simp_all add: Let_def concat_runs_concat del: concat_eq_Nil_conv)

lemma content_loop_empty_table:
  assumes "el_shape e = None" and "el_table e = Some table"
    and "get_or (table_tableRows table) [] = []"
  shows "content_loop repr [e] [] =
     [''[Table] ID: '' @ get_or (el_objectId e) ''Unknown'' @ '', Size: ''
        @ str_int (get_or (table_rows table) 0) @ ''x''
        @ str_int (get_or (table_columns table) 0) @ nl @ ''    (empty table)'']"
  using assms by (simp add: Let_def)

lemma strip_all_space:
  assumes "\<forall>c \<in> set s. is_space c"
  shows "strip s = []"
proof -
  have d: "dropWhile is_space s = []"
    using assms dropWhile_eq_Nil_conv by blast
  show ?thesis
    unfolding strip_def d by simp
qed

lemma get_slide_content_returns:
  assumes "pages_get service (calls w) presentation_id page_object_id = Inr result"
  shows "fst (get_slide_content repr service user_google_email presentation_id page_object_id w) =
     Inr (''Slide Content Details for '' @ user_google_email @ '':'' @ nl
          @ ''- Presentation ID: '' @ presentation_id @ nl
          @ ''- Page ID: '' @ page_object_id @ nl
          @ ''- Total Elements: '' @ str_nat (length (get_or (page_pageElements result) [])) @ nl
          @ nl
          @ ''Content Summary:'' @ nl
          @ (if get_or (page_pageElements result) [] \<noteq> []
             then join nl (content_loop repr (get_or (page_pageElements result) []) [])
             else ''  No content found on this slide.'') @ nl)"
proof -
  have "content_loop repr (get_or (page_pageElements result) []) [] = [] \<longleftrightarrow>
          get_or (page_pageElements result) [] = []"
    using content_loop_length [of repr "get_or (page_pageElements result) []" "[]"]
    by (metis add_0 length_0_conv)
  then show ?thesis
    using assms
    by (simp add: get_slide_content_def Let_def call_pages_get_def)
qed

lemma get_slide_content_raises:
  assumes "pages_get service (calls w) presentation_id page_object_id = Inl e"
  shows "fst (get_slide_content repr service user_google_email presentation_id page_object_id w)
           = Inl e"
  using assms by (simp add: get_slide_content_def Let_def call_pages_get_def)

section \<open>Claims about get_slide_content and get_page\<close>

text \<open>
  C4. The extraction loop of \<open>get_slide_content\<close> appends exactly one block for each
  page element, whichever payloads the element carries and whichever fields are absent:
  the number of blocks is the number of elements, and the block of an element sits
  between the blocks of the elements before it and after it. The tool fails only when
  the fetch of the page raised; whenever the fetch returned, it returns a message.
\<close>

theorem content_extraction_total:
  "length (content_loop repr page_elements []) = length page_elements
   \<and> content_loop repr (pre @ e # post) [] =
       content_loop repr pre [] @ content_loop repr [e] [] @ content_loop repr post []
   \<and> length (content_loop repr [e] []) = 1
   \<and> (case pages_get service (calls w) presentation_id page_object_id of
        Inl err \<Rightarrow>
          fst (get_slide_content repr service user_google_email presentation_id
                 page_object_id w) = Inl err
      | Inr result \<Rightarrow>
          \<exists>msg. fst (get_slide_content repr service user_google_email presentation_id
                      page_object_id w) = Inr msg)"
proof (intro conjI)
  show "length (content_loop repr page_elements []) = length page_elements"
    using content_loop_length [of repr page_elements "[]"] by simp
next
  show "content_loop repr (pre @ e # post) [] =
       content_loop repr pre [] @ content_loop repr [e] [] @ content_loop repr post []"
    by (rule content_loop_split)
next
  show "length (content_loop repr [e] []) = 1"
    by (rule content_loop_single_length)
next
  show "case pages_get service (calls w) presentation_id page_object_id of
        Inl err \<Rightarrow>
          fst (get_slide_content repr service user_google_email presentation_id
                 page_object_id w) = Inl err
      | Inr result \<Rightarrow>
          \<exists>msg. fst (get_slide_content repr service user_google_email presentation_id
                      page_object_id w) = Inr msg"
  proof (cases "pages_get service (calls w) presentation_id page_object_id")
    case (Inl err)
    then show ?thesis
      using get_slide_content_raises [OF Inl] by simp
  next
    case (Inr result)
    then show ?thesis
      using get_slide_content_returns [OF Inr] by simp
  qed
qed

text \<open>
  C9. In \<open>get_page\<close> a page element without a shape, table or line payload is rendered
  as "  Element: ID <id>, Type: Unknown", also when it carries an image or a video. For
  the same element \<open>get_slide_content\<close> renders the image description, or the video URL
  when there is no image.
\<close>

theorem get_page_image_video_unknown:
  assumes "el_shape e = None" and "el_table e = None" and "el_line e = None"
    and "el_image e = Some img \<or> (el_image e = None \<and> el_video e = Some vid)"
  shows "page_elements_info (pre @ e # post) [] =
           page_elements_info pre []
           @ [''  Element: ID '' @ get_or (el_objectId e) ''Unknown'' @ '', Type: Unknown'']
           @ page_elements_info post []
       \<and> content_loop repr (pre @ e # post) [] =
           content_loop repr pre []
           @ [case el_image e of
                Some i \<Rightarrow>
                  ''[Image] ID: '' @ get_or (el_objectId e) ''Unknown'' @ nl @ ''  Description: ''
                  @ (if get_or (image_description i) '''' \<noteq> []
                     then get_or (image_description i) '''' else ''(no description)'')
              | None \<Rightarrow>
                  ''[Video] ID: '' @ get_or (el_objectId e) ''Unknown'' @ nl @ ''  URL: ''
                  @ get_or (vid_url vid) ''(unknown)'']
           @ content_loop repr post []"
proof -
  have p: "page_elements_info [e] [] =
             [''  Element: ID '' @ get_or (el_objectId e) ''Unknown'' @ '', Type: Unknown'']"
    using assms(1,2,3) by (simp add: Let_def)
  have c: "content_loop repr [e] [] =
           [case el_image e of
                Some i \<Rightarrow>
                  ''[Image] ID: '' @ get_or (el_objectId e) ''Unknown'' @ nl @ ''  Description: ''
                  @ (if get_or (image_description i) '''' \<noteq> []
                     then get_or (image_description i) '''' else ''(no description)'')
              | None \<Rightarrow>
                  ''[Video] ID: '' @ get_or (el_objectId e) ''Unknown'' @ nl @ ''  URL: ''
                  @ get_or (vid_url vid) ''(unknown)'']"
    using assms by (auto simp: Let_def)
  show ?thesis
    using page_elements_info_split [of pre e post] content_loop_split [of repr pre e post] p c
    by simp
qed

text \<open>
  An element with only an image payload: \<open>get_page\<close> prints the generic line,
  \<open>get_slide_content\<close> the description.
\<close>

theorem get_page_image_video_unknown_witness:
  "page_elements_info
     [\<lparr>el_objectId = Some ''I1'', el_shape = None, el_table = None,
       el_image = Some \<lparr>image_description = Some ''logo''\<rparr>, el_video = None,
       el_line = None\<rparr>] [] = [''  Element: ID I1, Type: Unknown'']
   \<and> content_loop concat
     [\<lparr>el_objectId = Some ''I1'', el_shape = None, el_table = None,
       el_image = Some \<lparr>image_description = Some ''logo''\<rparr>, el_video = None,
       el_line = None\<rparr>] [] = [''[Image] ID: I1'' @ nl @ ''  Description: logo'']"
  using get_page_image_video_unknown
    [where e = "\<lparr>el_objectId = Some ''I1'', el_shape = None, el_table = None,
                 el_image = Some \<lparr>image_description = Some ''logo''\<rparr>, el_video = None,
                 el_line = None\<rparr>"
       and img = "\<lparr>image_description = Some ''logo''\<rparr>"
       and vid = "\<lparr>vid_url = None\<rparr>" and pre = "[]" and post = "[]" and repr = concat]
  by (simp add: get_or_def)

text \<open>
  A page with a shape without text, a table without rows, a video without URL and an
  element with no payload at all gives four blocks.
\<close>

theorem content_extraction_total_witness:
  "content_loop concat
     [\<lparr>el_objectId = Some ''S1'', el_shape = Some \<lparr>shape_shapeType = None, shape_text = None\<rparr>,
       el_table = None, el_image = None, el_video = None, el_line = None\<rparr>,
      \<lparr>el_objectId = Some ''T1'', el_shape = None,
       el_table = Some \<lparr>table_rows = None, table_columns = None, table_tableRows = None\<rparr>,
       el_image = None, el_video = None, el_line = None\<rparr>,
      \<lparr>el_objectId = None, el_shape = None, el_table = None, el_image = None,
       el_video = Some \<lparr>vid_url = None\<rparr>, el_line = None\<rparr>,
      \<lparr>el_objectId = None, el_shape = None, el_table = None, el_image = None,
       el_video = None, el_line = None\<rparr>] [] =
   [''[Shape] ID: S1, Type: Unknown'' @ nl @ ''  Text: (empty)'',
    ''[Table] ID: T1, Size: 0x0'' @ nl @ ''    (empty table)'',
    ''[Video] ID: Unknown'' @ nl @ ''  URL: (unknown)'',
    ''[Element] ID: Unknown, Type: Unknown'']
   \<and> length (content_loop concat
     [\<lparr>el_objectId = Some ''S1'', el_shape = Some \<lparr>shape_shapeType = None, shape_text = None\<rparr>,
       el_table = None, el_image = None, el_video = None, el_line = None\<rparr>,
      \<lparr>el_objectId = Some ''T1'', el_shape = None,
       el_table = Some \<lparr>table_rows = None, table_columns = None, table_tableRows = None\<rparr>,
       el_image = None, el_video = None, el_line = None\<rparr>,
      \<lparr>el_objectId = None, el_shape = None, el_table = None, el_image = None,
       el_video = Some \<lparr>vid_url = None\<rparr>, el_line = None\<rparr>,
      \<lparr>el_objectId = None, el_shape = None, el_table = None, el_image = None,
       el_video = None, el_line = None\<rparr>] []) = 4"
  using content_extraction_total
    [where page_elements =
      "[\<lparr>el_objectId = Some ''S1'', el_shape = Some \<lparr>shape_shapeType = None, shape_text = None\<rparr>,
       el_table = None, el_image = None, el_video = None, el_line = None\<rparr>,
      \<lparr>el_objectId = Some ''T1'', el_shape = None,
       el_table = Some \<lparr>table_rows = None, table_columns = None, table_tableRows = None\<rparr>,
       el_image = None, el_video = None, el_line = None\<rparr>,
      \<lparr>el_objectId = None, el_shape = None, el_table = None, el_image = None,
       el_video = Some \<lparr>vid_url = None\<rparr>, el_line = None\<rparr>,
      \<lparr>el_objectId = None, el_shape = None, el_table = None, el_image = None,
       el_video = None, el_line = None\<rparr>]" and repr = concat]
  by (simp add: get_or_def str_int_def str_nat_small)

text \<open>
  C3. The shape branch concatenates the contents of the text runs in order, ignoring
  other text elements (\<open>content_loop_shape\<close>, \<open>concat_runs_concat\<close>), and a table
  without rows is rendered as "(empty table)" (\<open>content_loop_empty_table\<close>). The
  placeholder "(empty)" is chosen by testing the concatenation before it is trimmed. A
  shape whose only text run is a line feed, which is what the API returns for a text box
  left empty, therefore has a trimmed text that is empty and is rendered with nothing
  after "Text: ", not with the placeholder.
\<close>

theorem shape_whitespace_only_text_not_placeholder:
  "strip (concat_runs [\<lparr>te_textRun = None\<rparr>,
                       \<lparr>te_textRun = Some \<lparr>run_content = Some [CHR 0x0A]\<rparr>\<rparr>] '''') = ''''
   \<and> content_loop concat
     [\<lparr>el_objectId = Some ''S1'',
       el_shape = Some \<lparr>shape_shapeType = Some ''TEXT_BOX'',
                        shape_text = Some \<lparr>txt_textElements =
                          Some [\<lparr>te_textRun = None\<rparr>,
                                \<lparr>te_textRun = Some \<lparr>run_content = Some [CHR 0x0A]\<rparr>\<rparr>]\<rparr>\<rparr>,
       el_table = None, el_image = None, el_video = None, el_line = None\<rparr>] [] =
     [''[Shape] ID: S1, Type: TEXT_BOX'' @ nl @ ''  Text: '']
   \<and> content_loop concat
     [\<lparr>el_objectId = Some ''S1'',
       el_shape = Some \<lparr>shape_shapeType = Some ''TEXT_BOX'',
                        shape_text = Some \<lparr>txt_textElements =
                          Some [\<lparr>te_textRun = None\<rparr>,
                                \<lparr>te_textRun = Some \<lparr>run_content = Some [CHR 0x0A]\<rparr>\<rparr>]\<rparr>\<rparr>,
       el_table = None, el_image = None, el_video = None, el_line = None\<rparr>] [] \<noteq>
     [''[Shape] ID: S1, Type: TEXT_BOX'' @ nl @ ''  Text: (empty)'']"
  by (simp add: get_or_def strip_def is_space_def nl_def)

end
